theory Spec2Isabelle
  imports Main
begin

section \<open>Replayable interactive ProMP: recording and replaying a learning session\<close>

text \<open>
  This theory embeds \<^verbatim>\<open>src/promp/replayable.py\<close>, the class
  \<^verbatim>\<open>ReplayableInteractiveProMP\<close>. The class inherits from
  \<^verbatim>\<open>InteractiveProMP\<close> (module \<^verbatim>\<open>interactive\<close>), which is the
  learner; every \<^verbatim>\<open>super()\<close> call is a call of one of the learner's operations.
  The learner is a parameter of the whole development: a record of operations over a
  learner state \<open>'l\<close>.
\<close>

subsection \<open>Formatting and paths\<close>

text \<open>
  \<^verbatim>\<open>'{}'.format(i)\<close> on a Python integer is its decimal rendering, with a leading
  minus sign when it is negative.
\<close>

definition digit :: "nat \<Rightarrow> char" where
  "digit d = ''0123456789'' ! d"

fun str_nat :: "nat \<Rightarrow> string" where
  "str_nat n = (if n < 10 then [digit n] else str_nat (n div 10) @ [digit (n mod 10)])"

definition str_int :: "int \<Rightarrow> string" where
  "str_int i = (if i < 0 then CHR ''-'' # str_nat (nat (- i)) else str_nat (nat i))"

text \<open>
  \<^verbatim>\<open>os.path.join(a, b)\<close> of \<^verbatim>\<open>posixpath\<close>: an absolute \<open>b\<close> replaces \<open>a\<close>;
  otherwise the two are joined with one separator, which is left out when \<open>a\<close> is empty or
  already ends with one.
\<close>

definition join :: "string \<Rightarrow> string \<Rightarrow> string" where
  "join a b =
     (if b \<noteq> [] \<and> hd b = CHR ''/'' then b
      else if a = [] \<or> last a = CHR ''/'' then a @ b
      else a @ CHR ''/'' # b)"

definition get_dataset_path :: "string \<Rightarrow> int \<Rightarrow> string" where
  "get_dataset_path path_ds dataset_id = join path_ds (''dataset_'' @ str_int dataset_id)"

definition demo_file :: "string \<Rightarrow> int \<Rightarrow> string" where
  "demo_file dataset_path i = join dataset_path (''demo_'' @ str_int i @ ''.json'')"

definition path_file :: "string \<Rightarrow> int \<Rightarrow> string" where
  "path_file dataset_path i = join dataset_path (''path_'' @ str_int i @ ''.json'')"

definition cart_goal_file :: "string \<Rightarrow> int \<Rightarrow> string" where
  "cart_goal_file dataset_path i = join dataset_path (''cart_goal_'' @ str_int i @ ''.json'')"

definition joint_goal_file :: "string \<Rightarrow> int \<Rightarrow> string" where
  "joint_goal_file dataset_path i = join dataset_path (''joint_goal_'' @ str_int i @ ''.json'')"

definition sequence_file :: "string \<Rightarrow> string" where
  "sequence_file dataset_path = join dataset_path ''sequence.json''"

subsection \<open>Events, JSON values and the file system\<close>

text \<open>
  An element of \<^verbatim>\<open>self.sequence\<close> is a dictionary with a \<^verbatim>\<open>'type'\<close> key:
  \<^verbatim>\<open>{'type': 'demo', 'added_to': ...}\<close> or
  \<^verbatim>\<open>{'type': 'goal', 'id': ..., 'log': ...}\<close>. \<open>Other\<close> is a dictionary of any
  other type, which the loop of \<^verbatim>\<open>play\<close> passes over (neither branch of its
  \<^verbatim>\<open>if/elif\<close> matches).
  The type \<open>'p\<close> is the type of the JSON-serialisable values that the caller and the
  learner exchange (trajectories, goals, the goal id and the goal log).
\<close>

datatype 'p event = Demo int | Goal 'p 'p | Other

text \<open>
  What a JSON file holds: \<open>Events\<close> is a list of event dictionaries (a manifest);
  \<open>Raw\<close> is any other JSON value. \<^verbatim>\<open>json.load\<close> returns what
  \<^verbatim>\<open>json.dump\<close> wrote.
\<close>

datatype 'p json = Raw 'p | Events "'p event list"

text \<open>
  The file system, as far as the class reads and writes it: the directories that exist and
  the content of the regular files. \<^verbatim>\<open>makedirs\<close> is recorded for the directory it
  is asked for (the missing parents that it also creates are the datasets folder and the
  directories above it, whose existence the class never tests); writing a file (\<^verbatim>\<open>open(.., 'w')\<close> and \<^verbatim>\<open>json.dump\<close>)
  creates or overwrites it. Failures of the storage itself (permissions, full disk) are not
  modelled.
\<close>

record 'p fs =
  dirs :: "string set"
  files :: "string \<rightharpoonup> 'p json"

definition exists_path :: "'p fs \<Rightarrow> string \<Rightarrow> bool" where
  "exists_path s p = (p \<in> dirs s \<or> files s p \<noteq> None)"

definition isfile :: "'p fs \<Rightarrow> string \<Rightarrow> bool" where
  "isfile s p = (files s p \<noteq> None)"

definition makedirs :: "'p fs \<Rightarrow> string \<Rightarrow> 'p fs" where
  "makedirs s p = s\<lparr>dirs := insert p (dirs s)\<rparr>"

definition write_json :: "'p fs \<Rightarrow> string \<Rightarrow> 'p json \<Rightarrow> 'p fs" where
  "write_json s p v = s\<lparr>files := (files s)(p \<mapsto> v)\<rparr>"

text \<open>
  The exceptions: one raised by the learner (carrying the learner's own value),
  \<^verbatim>\<open>IOError\<close> of \<^verbatim>\<open>open\<close> on a file that does not exist, and
  \<^verbatim>\<open>TypeError\<close> (\<^verbatim>\<open>exists(None)\<close>; iterating a manifest that is not a
  list of event dictionaries).
\<close>

datatype 'x error = LearnerError 'x | IOError string | TypeError

definition read_json :: "'p fs \<Rightarrow> string \<Rightarrow> 'x error + 'p json" where
  "read_json s p = (case files s p of None \<Rightarrow> Inl (IOError p) | Some v \<Rightarrow> Inr v)"

subsection \<open>The learner\<close>

text \<open>
  The operations of \<^verbatim>\<open>InteractiveProMP\<close> that the class calls. An optional
  argument that a call leaves out is \<open>None\<close>. Every operation that the class calls for
  its result may raise (\<open>Inl\<close>) or return a value and the learner's new state.
\<close>

record ('l, 'p, 't, 'x, 'c) learner_ops =
  lrn_init :: "'c \<Rightarrow> string \<Rightarrow> 'x + 'l"
  lrn_add_demonstration :: "'l \<Rightarrow> 'p json \<Rightarrow> 'p json \<Rightarrow> int option \<Rightarrow> 'x + (int \<times> 'l)"
  lrn_set_goal :: "'l \<Rightarrow> 'p json \<Rightarrow> 'p json option \<Rightarrow> bool option \<Rightarrow> 'x + (bool \<times> 'l)"
  lrn_generate_trajectory :: "'l \<Rightarrow> 'x + ('t \<times> 'l)"
  lrn_clear :: "'l \<Rightarrow> 'l"
  lrn_goal_id :: "'l \<Rightarrow> 'p"
  lrn_goal_log :: "'l \<Rightarrow> 'p"
  lrn_num_primitives :: "'l \<Rightarrow> int"

subsection \<open>The recorder\<close>

record ('l, 'p) recorder =
  rid :: int
  dataset_path :: string
  record_demo_id :: int
  record_goal_id :: int
  sequence :: "'p event list"
  learner :: 'l

text \<open>
  \<^verbatim>\<open>generate_next_dataset\<close>: the first of the ids \<open>0 .. 99\<close> whose path does not
  exist, with its path; when the loop ends without a \<^verbatim>\<open>return\<close> the function
  returns Python's \<open>None\<close> and \<^verbatim>\<open>self.id\<close> keeps its value.
\<close>

fun scan_datasets :: "'p fs \<Rightarrow> string \<Rightarrow> int list \<Rightarrow> (int \<times> string) option" where
  "scan_datasets s path_ds [] = None"
| "scan_datasets s path_ds (i # is) =
     (if \<not> exists_path s (get_dataset_path path_ds i)
      then Some (i, get_dataset_path path_ds i)
      else scan_datasets s path_ds is)"

definition generate_next_dataset :: "'p fs \<Rightarrow> string \<Rightarrow> int \<Rightarrow> int \<times> string option" where
  "generate_next_dataset s path_ds self_id =
     (case scan_datasets s path_ds (map int [0..<100]) of
        None \<Rightarrow> (self_id, None)
      | Some (i, path) \<Rightarrow> (i, Some path))"

text \<open>Lines 21 to 33 of the constructor: \<^verbatim>\<open>self.id\<close> and \<^verbatim>\<open>self.dataset_path\<close>.\<close>

definition resolve_dataset :: "'p fs \<Rightarrow> string \<Rightarrow> int \<Rightarrow> int \<times> string option" where
  "resolve_dataset s path_ds dataset_id =
     (if dataset_id < 0 then generate_next_dataset s path_ds dataset_id
      else (dataset_id, Some (get_dataset_path path_ds dataset_id)))"

text \<open>
  The constructor. \<^verbatim>\<open>exists(None)\<close> raises \<^verbatim>\<open>TypeError\<close>. The learner's own
  constructor receives the remaining arguments (\<open>cfg\<close>) and the plots path of the dataset.
\<close>

definition init ::
  "('l, 'p, 't, 'x, 'c) learner_ops \<Rightarrow> 'c \<Rightarrow> string \<Rightarrow> int \<Rightarrow> string \<Rightarrow> 'p fs
     \<Rightarrow> 'p fs \<times> ('x error + ('l, 'p) recorder)" where
  "init ops cfg path_ds dataset_id path_plots s =
     (case resolve_dataset s path_ds dataset_id of
        (self_id, None) \<Rightarrow> (s, Inl TypeError)
      | (self_id, Some path) \<Rightarrow>
          (let s' = (if \<not> exists_path s path then makedirs s path else s)
           in case lrn_init ops cfg (join path_plots (''dataset_'' @ str_int self_id)) of
                Inl e \<Rightarrow> (s', Inl (LearnerError e))
              | Inr l \<Rightarrow>
                  (s', Inr \<lparr>rid = self_id, dataset_path = path, record_demo_id = 0,
                            record_goal_id = 0, sequence = [], learner = l\<rparr>)))"

definition add_demonstration ::
  "('l, 'p, 't, 'x, 'c) learner_ops \<Rightarrow> ('l, 'p) recorder \<Rightarrow> 'p fs \<Rightarrow> 'p json \<Rightarrow> 'p json
     \<Rightarrow> 'p fs \<times> ('x error + (int \<times> ('l, 'p) recorder))" where
  "add_demonstration ops r s demonstration eef_demonstration =
     (let demonstration_file = demo_file (dataset_path r) (record_demo_id r);
          eef_demonstration_file = path_file (dataset_path r) (record_demo_id r);
          s1 = write_json s demonstration_file demonstration;
          s2 = write_json s1 eef_demonstration_file eef_demonstration
      in case lrn_add_demonstration ops (learner r) demonstration eef_demonstration None of
           Inl e \<Rightarrow> (s2, Inl (LearnerError e))
         | Inr (promp_index, l) \<Rightarrow>
             (s2, Inr (promp_index,
                       r\<lparr>learner := l,
                         sequence := sequence r @ [Demo promp_index],
                         record_demo_id := record_demo_id r + 1\<rparr>)))"

definition set_goal ::
  "('l, 'p, 't, 'x, 'c) learner_ops \<Rightarrow> ('l, 'p) recorder \<Rightarrow> 'p fs \<Rightarrow> 'p json \<Rightarrow> 'p json option
     \<Rightarrow> 'p fs \<times> ('x error + (bool \<times> ('l, 'p) recorder))" where
  "set_goal ops r s x_des joint_des =
     (case lrn_set_goal ops (learner r) x_des joint_des None of
        Inl e \<Rightarrow> (s, Inl (LearnerError e))
      | Inr (ret, l) \<Rightarrow>
          (let cartesian_goal_file = cart_goal_file (dataset_path r) (record_goal_id r);
               joint_file = joint_goal_file (dataset_path r) (record_goal_id r);
               s1 = write_json s cartesian_goal_file x_des;
               s2 = (case joint_des of None \<Rightarrow> s1 | Some j \<Rightarrow> write_json s1 joint_file j)
           in (s2, Inr (ret,
                        r\<lparr>learner := l,
                          sequence := sequence r @ [Goal (lrn_goal_id ops l) (lrn_goal_log ops l)],
                          record_goal_id := record_goal_id r + 1\<rparr>))))"

definition close ::
  "('l, 'p, 't, 'x, 'c) learner_ops \<Rightarrow> ('l, 'p) recorder \<Rightarrow> 'p fs \<Rightarrow> 'p fs \<times> ('l, 'p) recorder" where
  "close ops r s =
     (write_json s (sequence_file (dataset_path r)) (Events (sequence r)),
      r\<lparr>record_demo_id := 0, record_goal_id := 0, learner := lrn_clear ops (learner r)\<rparr>)"

subsection \<open>Replay\<close>

definition promp_target :: "int \<Rightarrow> int \<Rightarrow> int" where
  "promp_target num_primitives receiving_promp =
     (if num_primitives \<le> receiving_promp then - 1 else receiving_promp)"

definition play_next_demo ::
  "('l, 'p, 't, 'x, 'c) learner_ops \<Rightarrow> ('l, 'p) recorder \<Rightarrow> 'p fs \<Rightarrow> int
     \<Rightarrow> 'x error + (int \<times> ('l, 'p) recorder)" where
  "play_next_demo ops r s receiving_promp =
     (case read_json s (demo_file (dataset_path r) (record_demo_id r)) of
        Inl e \<Rightarrow> Inl e
      | Inr demonstration \<Rightarrow>
          (case read_json s (path_file (dataset_path r) (record_demo_id r)) of
             Inl e \<Rightarrow> Inl e
           | Inr eef_demonstration \<Rightarrow>
               (case lrn_add_demonstration ops (learner r) demonstration eef_demonstration
                       (Some (promp_target (lrn_num_primitives ops (learner r)) receiving_promp)) of
                  Inl e \<Rightarrow> Inl (LearnerError e)
                | Inr (target, l) \<Rightarrow>
                    Inr (target, r\<lparr>record_demo_id := record_demo_id r + 1, learner := l\<rparr>))))"

definition play_next_goal ::
  "('l, 'p, 't, 'x, 'c) learner_ops \<Rightarrow> ('l, 'p) recorder \<Rightarrow> 'p fs \<Rightarrow> bool
     \<Rightarrow> 'x error + ((bool \<times> 't option) \<times> ('l, 'p) recorder)" where
  "play_next_goal ops r s refining =
     (case read_json s (cart_goal_file (dataset_path r) (record_goal_id r)) of
        Inl e \<Rightarrow> Inl e
      | Inr x_des \<Rightarrow>
          (let joint_des =
                 (if isfile s (joint_goal_file (dataset_path r) (record_goal_id r))
                  then files s (joint_goal_file (dataset_path r) (record_goal_id r))
                  else None)
           in case lrn_set_goal ops (learner r) x_des joint_des (Some refining) of
                Inl e \<Rightarrow> Inl (LearnerError e)
              | Inr (result, l) \<Rightarrow>
                  (if result
                   then (case lrn_generate_trajectory ops l of
                           Inl e \<Rightarrow> Inl (LearnerError e)
                         | Inr (trajectory, l') \<Rightarrow>
                             Inr ((result, Some trajectory),
                                  r\<lparr>record_goal_id := record_goal_id r + 1, learner := l'\<rparr>))
                   else Inr ((result, None),
                             r\<lparr>record_goal_id := record_goal_id r + 1, learner := l\<rparr>))))"

text \<open>
  An entry of the timeline that \<^verbatim>\<open>play\<close> returns:
  \<^verbatim>\<open>{'type': 'demo', 'added_to': target}\<close> or
  \<^verbatim>\<open>{'type': 'goal', 'is_reached': .., 'log': .., 'trajectory': ..}\<close>.
\<close>

datatype ('p, 't) outcome = DemoOutcome int | GoalOutcome bool 'p "'t option"

fun play_loop ::
  "('l, 'p, 't, 'x, 'c) learner_ops \<Rightarrow> bool \<Rightarrow> bool \<Rightarrow> ('l, 'p) recorder \<Rightarrow> 'p fs
     \<Rightarrow> 'p event list \<Rightarrow> ('p, 't) outcome list
     \<Rightarrow> 'x error + (('p, 't) outcome list \<times> ('l, 'p) recorder)" where
  "play_loop ops keep_targets refining r s [] timeline = Inr (timeline, r)"
| "play_loop ops keep_targets refining r s (Demo added_to # es) timeline =
     (case play_next_demo ops r s (if keep_targets then added_to else - 1) of
        Inl e \<Rightarrow> Inl e
      | Inr (target, r') \<Rightarrow>
          play_loop ops keep_targets refining r' s es (timeline @ [DemoOutcome target]))"
| "play_loop ops keep_targets refining r s (Goal gid glog # es) timeline =
     (case play_next_goal ops r s refining of
        Inl e \<Rightarrow> Inl e
      | Inr ((is_reached, trajectory), r') \<Rightarrow>
          play_loop ops keep_targets refining r' s es
            (timeline @ [GoalOutcome is_reached (lrn_goal_log ops (learner r')) trajectory]))"
| "play_loop ops keep_targets refining r s (Other # es) timeline =
     play_loop ops keep_targets refining r s es timeline"

text \<open>
  \<^verbatim>\<open>play\<close> resets the counters, loads the manifest into \<^verbatim>\<open>self.sequence\<close> and
  walks it. The manifests that \<^verbatim>\<open>close\<close> writes are lists of event dictionaries
  (\<open>Events\<close>). A manifest file that holds another value (\<open>Raw\<close>) is outside what
  the class writes; it is taken to fail at \<^verbatim>\<open>event['type']\<close>, as a number, a
  non-empty string or a list of other values does (an empty string or object would give an
  empty timeline instead). No statement below is about such a manifest.
\<close>

definition play ::
  "('l, 'p, 't, 'x, 'c) learner_ops \<Rightarrow> ('l, 'p) recorder \<Rightarrow> 'p fs \<Rightarrow> bool \<Rightarrow> bool
     \<Rightarrow> 'x error + (('p, 't) outcome list \<times> ('l, 'p) recorder)" where
  "play ops r s keep_targets refining =
     (let r0 = r\<lparr>record_demo_id := 0, record_goal_id := 0\<rparr>
      in case read_json s (sequence_file (dataset_path r)) of
           Inl e \<Rightarrow> Inl e
         | Inr (Raw v) \<Rightarrow> Inl TypeError
         | Inr (Events es) \<Rightarrow>
             play_loop ops keep_targets refining (r0\<lparr>sequence := es\<rparr>) s es [])"

text \<open>
  What a replay hands back, without the recorder: the exception, or the timeline and the
  learner's state at the end.
\<close>

definition result_of ::
  "'x error + (('p, 't) outcome list \<times> ('l, 'p) recorder)
     \<Rightarrow> 'x error + (('p, 't) outcome list \<times> 'l)" where
  "result_of res = (case res of Inl e \<Rightarrow> Inl e | Inr (timeline, r) \<Rightarrow> Inr (timeline, learner r))"

subsection \<open>A recording session\<close>

text \<open>
  The calls that a client makes while recording, in order. A session stops at the first
  call that raises. \<open>record_calls\<close> returns what each call returned.
\<close>

datatype 'p call = AddDemonstration "'p json" "'p json" | SetGoal "'p json" "'p json option"

datatype returned = Added int | Reached bool

fun record_calls ::
  "('l, 'p, 't, 'x, 'c) learner_ops \<Rightarrow> ('l, 'p) recorder \<Rightarrow> 'p fs \<Rightarrow> 'p call list
     \<Rightarrow> 'p fs \<times> ('x error + (returned list \<times> ('l, 'p) recorder))" where
  "record_calls ops r s [] = (s, Inr ([], r))"
| "record_calls ops r s (AddDemonstration d e # cs) =
     (case add_demonstration ops r s d e of
        (s', Inl err) \<Rightarrow> (s', Inl err)
      | (s', Inr (promp_index, r')) \<Rightarrow>
          (case record_calls ops r' s' cs of
             (s'', Inl err) \<Rightarrow> (s'', Inl err)
           | (s'', Inr (rets, r'')) \<Rightarrow> (s'', Inr (Added promp_index # rets, r''))))"
| "record_calls ops r s (SetGoal x j # cs) =
     (case set_goal ops r s x j of
        (s', Inl err) \<Rightarrow> (s', Inl err)
      | (s', Inr (ret, r')) \<Rightarrow>
          (case record_calls ops r' s' cs of
             (s'', Inl err) \<Rightarrow> (s'', Inl err)
           | (s'', Inr (rets, r'')) \<Rightarrow> (s'', Inr (Reached ret # rets, r''))))"

fun is_demo_call :: "'p call \<Rightarrow> bool" where
  "is_demo_call (AddDemonstration d e) = True"
| "is_demo_call (SetGoal x j) = False"

fun is_goal_call :: "'p call \<Rightarrow> bool" where
  "is_goal_call (AddDemonstration d e) = False"
| "is_goal_call (SetGoal x j) = True"

fun is_demo_event :: "'p event \<Rightarrow> bool" where
  "is_demo_event (Demo t) = True"
| "is_demo_event (Goal g k) = False"
| "is_demo_event Other = False"

fun is_goal_event :: "'p event \<Rightarrow> bool" where
  "is_goal_event (Demo t) = False"
| "is_goal_event (Goal g k) = True"
| "is_goal_event Other = False"

fun is_demo_outcome :: "('p, 't) outcome \<Rightarrow> bool" where
  "is_demo_outcome (DemoOutcome target) = True"
| "is_demo_outcome (GoalOutcome is_reached glog trajectory) = False"

text \<open>
  The replay in the words of the spec (4.5 and 4.6), over the calls of a session and what
  they returned, with no files and no counters. The events are replayed in capture order.
  A demonstration is resubmitted with its target: the original \<open>added_to\<close> if
  \<open>keep_targets\<close>, else the sentinel; when that is not below the Learner's current
  primitive count the sentinel \<open>-1\<close> is passed, otherwise the demonstration is forced into
  exactly that primitive; the timeline gets what the Learner reports. A goal is forwarded
  to the Learner with the \<open>refining\<close> flag and, only if it was accepted, a trajectory is
  requested; the timeline gets the result, the Learner's current goal log and the
  trajectory. \<open>held g\<close> is the joint goal that the dataset held under the index \<open>g\<close>
  before the session: the joint payload is loaded if its file exists, so it is what the
  replay passes for a goal that was recorded without one.
\<close>

fun replay_spec ::
  "('l, 'p, 't, 'x, 'c) learner_ops \<Rightarrow> bool \<Rightarrow> bool \<Rightarrow> (int \<Rightarrow> 'p json option) \<Rightarrow> int \<Rightarrow> 'l
     \<Rightarrow> ('p call \<times> returned) list \<Rightarrow> ('p, 't) outcome list
     \<Rightarrow> 'x error + (('p, 't) outcome list \<times> 'l)" where
  "replay_spec ops keep_targets refining held g l [] timeline = Inr (timeline, l)"
| "replay_spec ops keep_targets refining held g l ((AddDemonstration d e, Added added_to) # rest)
     timeline =
     (let receiving = (if keep_targets then added_to else - 1)
      in case lrn_add_demonstration ops l d e
                (Some (if lrn_num_primitives ops l \<le> receiving then - 1 else receiving)) of
           Inl x \<Rightarrow> Inl (LearnerError x)
         | Inr (target, l') \<Rightarrow>
             replay_spec ops keep_targets refining held g l' rest
               (timeline @ [DemoOutcome target]))"
| "replay_spec ops keep_targets refining held g l ((SetGoal x_des joint_des, Reached ret) # rest)
     timeline =
     (case lrn_set_goal ops l x_des
             (case joint_des of None \<Rightarrow> held g | Some j \<Rightarrow> Some j) (Some refining) of
        Inl x \<Rightarrow> Inl (LearnerError x)
      | Inr (accepted, l') \<Rightarrow>
          if accepted
          then (case lrn_generate_trajectory ops l' of
                  Inl x \<Rightarrow> Inl (LearnerError x)
                | Inr (trajectory, l'') \<Rightarrow>
                    replay_spec ops keep_targets refining held (g + 1) l'' rest
                      (timeline @ [GoalOutcome accepted (lrn_goal_log ops l'') (Some trajectory)]))
          else replay_spec ops keep_targets refining held (g + 1) l' rest
                 (timeline @ [GoalOutcome accepted (lrn_goal_log ops l') None]))"
| "replay_spec ops keep_targets refining held g l ((AddDemonstration d e, Reached ret) # rest)
     timeline = replay_spec ops keep_targets refining held g l rest timeline"
| "replay_spec ops keep_targets refining held g l ((SetGoal x_des joint_des, Added t) # rest)
     timeline = replay_spec ops keep_targets refining held g l rest timeline"

subsection \<open>A small learner, for concrete runs\<close>

text \<open>
  A learner whose state is the number of its primitives. With no target it puts a
  demonstration into its first primitive, which it opens when it has none; with the target
  \<open>-1\<close> it opens a new primitive; a target in range is obeyed; any other target is
  refused, and so is a demonstration or a goal that is an event list. A goal is reachable
  when there is a primitive.
\<close>

definition toy_add_demonstration ::
  "int \<Rightarrow> nat json \<Rightarrow> nat json \<Rightarrow> int option \<Rightarrow> unit + (int \<times> int)" where
  "toy_add_demonstration l d e force =
     (case d of
        Events es \<Rightarrow> Inl ()
      | Raw v \<Rightarrow>
          (case force of
             None \<Rightarrow> if 0 < l then Inr (0, l) else Inr (l, l + 1)
           | Some t \<Rightarrow>
               if t = - 1 then Inr (l, l + 1)
               else if 0 \<le> t \<and> t < l then Inr (t, l)
               else Inl ()))"

definition toy_set_goal ::
  "int \<Rightarrow> nat json \<Rightarrow> nat json option \<Rightarrow> bool option \<Rightarrow> unit + (bool \<times> int)" where
  "toy_set_goal l x j refining = (case x of Events es \<Rightarrow> Inl () | Raw v \<Rightarrow> Inr (0 < l, l))"

definition toy :: "(int, nat, nat, unit, unit) learner_ops" where
  "toy =
     \<lparr>lrn_init = (\<lambda>cfg plots. Inr 0),
      lrn_add_demonstration = toy_add_demonstration,
      lrn_set_goal = toy_set_goal,
      lrn_generate_trajectory = (\<lambda>l. Inr (0, l)),
      lrn_clear = (\<lambda>l. 0),
      lrn_goal_id = (\<lambda>l. 0),
      lrn_goal_log = (\<lambda>l. 0),
      lrn_num_primitives = (\<lambda>l. l)\<rparr>"

definition empty_fs :: "nat fs" where
  "empty_fs = \<lparr>dirs = {}, files = Map.empty\<rparr>"

text \<open>A recorder as the constructor leaves it for the dataset \<open>ds/dataset_0\<close>.\<close>

definition fresh :: "(int, nat) recorder" where
  "fresh = \<lparr>rid = 0, dataset_path = ''ds/dataset_0'', record_demo_id = 0, record_goal_id = 0,
            sequence = [], learner = 0\<rparr>"

text \<open>
  The states of one run: a recorder for the dataset \<open>ds/dataset_0\<close> records one
  demonstration and one goal, is closed, and is replayed.
\<close>

definition fs_dir :: "nat fs" where
  "fs_dir = \<lparr>dirs = {''ds/dataset_0''}, files = Map.empty\<rparr>"

definition session :: "nat call list" where
  "session = [AddDemonstration (Raw 1) (Raw 2), SetGoal (Raw 3) None]"

definition fs_recorded :: "nat fs" where
  "fs_recorded =
     \<lparr>dirs = {''ds/dataset_0''},
      files = [''ds/dataset_0/demo_0.json'' \<mapsto> Raw 1,
               ''ds/dataset_0/path_0.json'' \<mapsto> Raw 2,
               ''ds/dataset_0/cart_goal_0.json'' \<mapsto> Raw 3]\<rparr>"

definition recorded :: "(int, nat) recorder" where
  "recorded = \<lparr>rid = 0, dataset_path = ''ds/dataset_0'', record_demo_id = 1, record_goal_id = 1,
               sequence = [Demo 0, Goal 0 0], learner = 1\<rparr>"

definition fs_closed :: "nat fs" where
  "fs_closed =
     \<lparr>dirs = {''ds/dataset_0''},
      files = [''ds/dataset_0/demo_0.json'' \<mapsto> Raw 1,
               ''ds/dataset_0/path_0.json'' \<mapsto> Raw 2,
               ''ds/dataset_0/cart_goal_0.json'' \<mapsto> Raw 3,
               ''ds/dataset_0/sequence.json'' \<mapsto> Events [Demo 0, Goal 0 0]]\<rparr>"

definition closed :: "(int, nat) recorder" where
  "closed = \<lparr>rid = 0, dataset_path = ''ds/dataset_0'', record_demo_id = 0, record_goal_id = 0,
             sequence = [Demo 0, Goal 0 0], learner = 0\<rparr>"

text \<open>
  A second pass on the closed recorder: one more demonstration, and \<^verbatim>\<open>close\<close> again.
\<close>

definition fs_rerecorded :: "nat fs" where
  "fs_rerecorded =
     \<lparr>dirs = {''ds/dataset_0''},
      files = [''ds/dataset_0/demo_0.json'' \<mapsto> Raw 4,
               ''ds/dataset_0/path_0.json'' \<mapsto> Raw 5,
               ''ds/dataset_0/cart_goal_0.json'' \<mapsto> Raw 3,
               ''ds/dataset_0/sequence.json'' \<mapsto> Events [Demo 0, Goal 0 0]]\<rparr>"

definition rerecorded :: "(int, nat) recorder" where
  "rerecorded = \<lparr>rid = 0, dataset_path = ''ds/dataset_0'', record_demo_id = 1,
                 record_goal_id = 0, sequence = [Demo 0, Goal 0 0, Demo 0], learner = 1\<rparr>"

definition fs_second :: "nat fs" where
  "fs_second =
     \<lparr>dirs = {''ds/dataset_0''},
      files = [''ds/dataset_0/demo_0.json'' \<mapsto> Raw 4,
               ''ds/dataset_0/path_0.json'' \<mapsto> Raw 5,
               ''ds/dataset_0/cart_goal_0.json'' \<mapsto> Raw 3,
               ''ds/dataset_0/sequence.json'' \<mapsto> Events [Demo 0, Goal 0 0, Demo 0]]\<rparr>"

definition closed_second :: "(int, nat) recorder" where
  "closed_second = \<lparr>rid = 0, dataset_path = ''ds/dataset_0'', record_demo_id = 0,
                    record_goal_id = 0, sequence = [Demo 0, Goal 0 0, Demo 0], learner = 0\<rparr>"










text \<open>The datasets folder after a second construction, and the second recorder.\<close>

definition fs_two :: "nat fs" where
  "fs_two = \<lparr>dirs = {''ds/dataset_1'', ''ds/dataset_0''}, files = Map.empty\<rparr>"

definition fresh_1 :: "(int, nat) recorder" where
  "fresh_1 = \<lparr>rid = 1, dataset_path = ''ds/dataset_1'', record_demo_id = 0, record_goal_id = 0,
              sequence = [], learner = 0\<rparr>"

text \<open>A datasets folder \<open>ds\<close> in which every dataset of the ids \<open>0 .. 99\<close> exists.\<close>

definition fs_full :: "nat fs" where
  "fs_full = \<lparr>dirs = (\<lambda>i. get_dataset_path ''ds'' (int i)) ` {0..<100}, files = Map.empty\<rparr>"

section \<open>File names\<close>

declare str_nat.simps [simp del]

lemma digit_inj: "a < 10 \<Longrightarrow> b < 10 \<Longrightarrow> digit a = digit b \<Longrightarrow> a = b"
proof -
  assume a: "a < 10" and b: "b < 10" and e: "digit a = digit b"
  have A: "a \<in> {0,1,2,3,4,5,6,7,8,9}" using a by auto
  have B: "b \<in> {0,1,2,3,4,5,6,7,8,9}" using b by auto
  show ?thesis using A B e by (auto simp: digit_def)
qed

lemma digit_not_special: "d < 10 \<Longrightarrow> digit d \<noteq> CHR ''-'' \<and> digit d \<noteq> CHR ''/'' \<and> digit d \<noteq> CHR ''.''"
proof -
  assume a: "d < 10"
  have A: "d \<in> {0,1,2,3,4,5,6,7,8,9}" using a by auto
  show ?thesis using A by (auto simp: digit_def)
qed

lemma str_nat_nonempty: "str_nat n \<noteq> []"
  by (subst str_nat.simps) simp

lemma str_nat_inj: "str_nat n = str_nat m \<Longrightarrow> n = m"
proof (induction n arbitrary: m rule: str_nat.induct)
  case (1 n)
  show ?case
  proof (cases "n < 10")
    case True
    then have n: "str_nat n = [digit n]" by (subst str_nat.simps) simp
    show ?thesis
    proof (cases "m < 10")
      case True
      then have "str_nat m = [digit m]" by (subst str_nat.simps) simp
      with n "1.prems" \<open>n < 10\<close> True show ?thesis by (auto dest: digit_inj)
    next
      case False
      then have "str_nat m = str_nat (m div 10) @ [digit (m mod 10)]" by (subst str_nat.simps) simp
      with n "1.prems" str_nat_nonempty[of "m div 10"] show ?thesis by (cases "str_nat (m div 10)") auto
    qed
  next
    case False
    then have n: "str_nat n = str_nat (n div 10) @ [digit (n mod 10)]" by (subst str_nat.simps) simp
    show ?thesis
    proof (cases "m < 10")
      case True
      then have "str_nat m = [digit m]" by (subst str_nat.simps) simp
      with n "1.prems" str_nat_nonempty[of "n div 10"] show ?thesis by (cases "str_nat (n div 10)") auto
    next
      case m: False
      then have "str_nat m = str_nat (m div 10) @ [digit (m mod 10)]" by (subst str_nat.simps) simp
      with n "1.prems" have a: "str_nat (n div 10) = str_nat (m div 10)" and b: "digit (n mod 10) = digit (m mod 10)"
        by auto
      from "1.IH"[OF False a] have "n div 10 = m div 10" .
      moreover from b have "n mod 10 = m mod 10" by (intro digit_inj) simp_all
      ultimately show ?thesis by (metis div_mult_mod_eq)
    qed
  qed
qed

lemma str_nat_chars: "c \<in> set (str_nat n) \<Longrightarrow> c \<noteq> CHR ''-'' \<and> c \<noteq> CHR ''/'' \<and> c \<noteq> CHR ''.''"
proof (induction n rule: str_nat.induct)
  case (1 n)
  show ?case
  proof (cases "n < 10")
    case True
    then have "str_nat n = [digit n]" by (subst str_nat.simps) simp
    with "1.prems" True show ?thesis using digit_not_special[of n] by auto
  next
    case False
    then have "str_nat n = str_nat (n div 10) @ [digit (n mod 10)]" by (subst str_nat.simps) simp
    with "1.prems" "1.IH"[OF False] show ?thesis using digit_not_special[of "n mod 10"] by auto
  qed
qed

lemma str_int_inj: "str_int i = str_int j \<Longrightarrow> i = j"
proof -
  assume e: "str_int i = str_int j"
  have hdn: "\<And>n. hd (str_nat n) \<noteq> CHR ''-''"
    using str_nat_chars str_nat_nonempty by (metis list.set_sel(1))
  show ?thesis
  proof (cases "i < 0")
    case True
    show ?thesis
    proof (cases "j < 0")
      case j: True
      with True e have "str_nat (nat (- i)) = str_nat (nat (- j))" by (simp add: str_int_def)
      then have "nat (- i) = nat (- j)" by (rule str_nat_inj)
      with True j show ?thesis by simp
    next
      case False
      with True e have "CHR ''-'' # str_nat (nat (- i)) = str_nat (nat j)" by (simp add: str_int_def)
      then have "hd (str_nat (nat j)) = CHR ''-''" by (metis list.sel(1))
      with hdn show ?thesis by blast
    qed
  next
    case False
    show ?thesis
    proof (cases "j < 0")
      case True
      with False e have "CHR ''-'' # str_nat (nat (- j)) = str_nat (nat i)" by (simp add: str_int_def)
      then have "hd (str_nat (nat i)) = CHR ''-''" by (metis list.sel(1))
      with hdn show ?thesis by blast
    next
      case j: False
      with False e have "str_nat (nat i) = str_nat (nat j)" by (simp add: str_int_def)
      then have "nat i = nat j" by (rule str_nat_inj)
      with False j show ?thesis by simp
    qed
  qed
qed

lemma join_rel: "b \<noteq> [] \<Longrightarrow> hd b \<noteq> CHR ''/'' \<Longrightarrow> join a b = (if a = [] \<or> last a = CHR ''/'' then a else a @ ''/'') @ b"
  by (simp add: join_def)

lemma join_inj: "b \<noteq> [] \<Longrightarrow> hd b \<noteq> CHR ''/'' \<Longrightarrow> c \<noteq> [] \<Longrightarrow> hd c \<noteq> CHR ''/'' \<Longrightarrow> join a b = join a c \<longleftrightarrow> b = c"
  by (simp add: join_rel)

lemma demo_file_inj: "demo_file d i = demo_file d j \<longleftrightarrow> i = j"
  by (auto simp: demo_file_def join_inj dest: str_int_inj)
lemma path_file_inj: "path_file d i = path_file d j \<longleftrightarrow> i = j"
  by (auto simp: path_file_def join_inj dest: str_int_inj)
lemma cart_goal_file_inj: "cart_goal_file d i = cart_goal_file d j \<longleftrightarrow> i = j"
  by (auto simp: cart_goal_file_def join_inj dest: str_int_inj)
lemma joint_goal_file_inj: "joint_goal_file d i = joint_goal_file d j \<longleftrightarrow> i = j"
  by (auto simp: joint_goal_file_def join_inj dest: str_int_inj)

lemma file_kinds_distinct:
  "demo_file d i \<noteq> path_file d j" "demo_file d i \<noteq> cart_goal_file d j"
  "demo_file d i \<noteq> joint_goal_file d j" "demo_file d i \<noteq> sequence_file d"
  "path_file d i \<noteq> cart_goal_file d j" "path_file d i \<noteq> joint_goal_file d j"
  "path_file d i \<noteq> sequence_file d" "cart_goal_file d i \<noteq> joint_goal_file d j"
  "cart_goal_file d i \<noteq> sequence_file d" "joint_goal_file d i \<noteq> sequence_file d"
  by (simp_all add: demo_file_def path_file_def cart_goal_file_def joint_goal_file_def
        sequence_file_def join_inj)

lemma str_int_0: "str_int 0 = ''0''" by (simp add: str_int_def str_nat.simps digit_def)
lemma str_int_1: "str_int 1 = ''1''" by (simp add: str_int_def str_nat.simps digit_def)

section \<open>Recording and replay\<close>

lemma files_write_json: "files (write_json s p v) = (files s)(p \<mapsto> v)"
  by (simp add: write_json_def)

lemma dirs_write_json: "dirs (write_json s p v) = dirs s"
  by (simp add: write_json_def)

lemma promp_target_cases:
  "promp_target n t = - 1 \<or> (promp_target n t = t \<and> t < n)"
  by (simp add: promp_target_def)

text \<open>
  Claim C2, amended. \<^verbatim>\<open>_play_next_demo(receiving_promp)\<close> reads the two payloads at
  the demo counter and resubmits them to the learner with the target \<open>-1\<close> when
  \<open>receiving_promp\<close> is at least the learner's number of primitives, and with
  \<open>receiving_promp\<close> itself otherwise. So the learner is never given a forced index at
  or above its number of primitives; and for a \<open>receiving_promp\<close> that is an index or
  the sentinel (\<open>-1 \<le> receiving_promp\<close>) the target handed over is the sentinel or the
  index of a primitive.
\<close>

theorem play_next_demo_target:
  assumes "files s (demo_file (dataset_path r) (record_demo_id r)) = Some d"
    and "files s (path_file (dataset_path r) (record_demo_id r)) = Some e"
  shows "play_next_demo ops r s receiving_promp =
           (case lrn_add_demonstration ops (learner r) d e
                   (Some (if lrn_num_primitives ops (learner r) \<le> receiving_promp
                          then - 1 else receiving_promp)) of
              Inl x \<Rightarrow> Inl (LearnerError x)
            | Inr (target, l) \<Rightarrow>
                Inr (target, r\<lparr>record_demo_id := record_demo_id r + 1, learner := l\<rparr>))
         \<and> (promp_target (lrn_num_primitives ops (learner r)) receiving_promp = - 1
              \<or> (promp_target (lrn_num_primitives ops (learner r)) receiving_promp = receiving_promp
                  \<and> receiving_promp < lrn_num_primitives ops (learner r)))
         \<and> (- 1 \<le> receiving_promp \<longrightarrow>
              promp_target (lrn_num_primitives ops (learner r)) receiving_promp = - 1
              \<or> (0 \<le> promp_target (lrn_num_primitives ops (learner r)) receiving_promp
                  \<and> promp_target (lrn_num_primitives ops (learner r)) receiving_promp
                      < lrn_num_primitives ops (learner r)))"
  using assms by (auto simp: play_next_demo_def read_json_def promp_target_def)

lemma add_demonstration_counters:
  "add_demonstration ops r s d e = (s', Inr (t, r')) \<Longrightarrow>
     record_demo_id r' = record_demo_id r + 1 \<and> record_goal_id r' = record_goal_id r
     \<and> dataset_path r' = dataset_path r \<and> sequence r' = sequence r @ [Demo t]"
  by (auto simp: add_demonstration_def Let_def split: sum.splits prod.splits)

lemma set_goal_counters:
  "set_goal ops r s x j = (s', Inr (ret, r')) \<Longrightarrow>
     record_demo_id r' = record_demo_id r \<and> record_goal_id r' = record_goal_id r + 1
     \<and> dataset_path r' = dataset_path r
     \<and> sequence r' = sequence r @ [Goal (lrn_goal_id ops (learner r')) (lrn_goal_log ops (learner r'))]"
  by (auto simp: set_goal_def Let_def split: sum.splits prod.splits)

lemma record_calls_counters:
  "record_calls ops r s cs = (s', Inr (rets, r')) \<Longrightarrow>
     record_demo_id r' = record_demo_id r + int (length (filter is_demo_call cs))
     \<and> record_goal_id r' = record_goal_id r + int (length (filter is_goal_call cs))
     \<and> dataset_path r' = dataset_path r"
proof (induction cs arbitrary: r s rets)
  case Nil
  then show ?case by simp
next
  case (Cons c cs)
  show ?case
  proof (cases c)
    case (AddDemonstration d e)
    with Cons.prems obtain s1 t r1 rets1 where
      a: "add_demonstration ops r s d e = (s1, Inr (t, r1))"
      and b: "record_calls ops r1 s1 cs = (s', Inr (rets1, r'))"
      by (auto split: prod.splits sum.splits)
    from Cons.IH[OF b] add_demonstration_counters[OF a] AddDemonstration show ?thesis by simp
  next
    case (SetGoal x j)
    with Cons.prems obtain s1 t r1 rets1 where
      a: "set_goal ops r s x j = (s1, Inr (t, r1))"
      and b: "record_calls ops r1 s1 cs = (s', Inr (rets1, r'))"
      by (auto split: prod.splits sum.splits)
    from Cons.IH[OF b] set_goal_counters[OF a] SetGoal show ?thesis by simp
  qed
qed

lemma play_next_demo_counters:
  "play_next_demo ops r s t = Inr (target, r') \<Longrightarrow>
     record_demo_id r' = record_demo_id r + 1 \<and> record_goal_id r' = record_goal_id r"
  by (auto simp: play_next_demo_def split: sum.splits prod.splits)

lemma play_next_goal_counters:
  "play_next_goal ops r s refining = Inr (res, r') \<Longrightarrow>
     record_demo_id r' = record_demo_id r \<and> record_goal_id r' = record_goal_id r + 1"
  by (auto simp: play_next_goal_def Let_def split: sum.splits prod.splits if_splits)

lemma play_loop_counters:
  "play_loop ops kt refining r s es timeline = Inr (timeline', r') \<Longrightarrow>
     record_demo_id r' = record_demo_id r + int (length (filter is_demo_event es))
     \<and> record_goal_id r' = record_goal_id r + int (length (filter is_goal_event es))"
proof (induction ops kt refining r s es timeline rule: play_loop.induct)
  case (1 ops kt refining r s timeline)
  then show ?case by simp
next
  case (2 ops kt refining r s added_to es timeline)
  from "2.prems" obtain target r1 where
    a: "play_next_demo ops r s (if kt then added_to else - 1) = Inr (target, r1)"
    and b: "play_loop ops kt refining r1 s es (timeline @ [DemoOutcome target]) = Inr (timeline', r')"
    by (auto split: sum.splits prod.splits)
  from "2.IH"[OF a refl b] play_next_demo_counters[OF a] show ?case by simp
next
  case (3 ops kt refining r s gid glog es timeline)
  from "3.prems" obtain is_reached trajectory r1 where
    a: "play_next_goal ops r s refining = Inr ((is_reached, trajectory), r1)"
    and b: "play_loop ops kt refining r1 s es
              (timeline @ [GoalOutcome is_reached (lrn_goal_log ops (learner r1)) trajectory])
            = Inr (timeline', r')"
    by (auto split: sum.splits prod.splits)
  from "3.IH"[OF a refl refl b] play_next_goal_counters[OF a] show ?case by simp
next
  case (4 ops kt refining r s es timeline)
  then show ?case by simp
qed

lemma init_counters:
  "init ops cfg path_ds d path_plots s = (s1, Inr r) \<Longrightarrow>
     record_demo_id r = 0 \<and> record_goal_id r = 0 \<and> sequence r = []"
  by (auto simp: init_def Let_def split: prod.splits option.splits sum.splits)

text \<open>
  Claim C3. The constructor and \<^verbatim>\<open>close\<close> leave both counters at \<open>0\<close>. From
  counters at \<open>0\<close>, a session of calls that all return leaves \<open>record_demo_id\<close> at the
  number of \<^verbatim>\<open>add_demonstration\<close> calls and \<open>record_goal_id\<close> at the number of
  \<^verbatim>\<open>set_goal\<close> calls. When \<^verbatim>\<open>play\<close> completes, the counters are the numbers of
  demo and of goal events of the manifest it read.
\<close>

theorem counter_monotonicity:
  "(init ops cfg path_ds d path_plots s0 = (s1, Inr r1) \<longrightarrow>
      record_demo_id r1 = 0 \<and> record_goal_id r1 = 0)
   \<and> record_demo_id (snd (close ops rc sc)) = 0 \<and> record_goal_id (snd (close ops rc sc)) = 0
   \<and> (record_demo_id r = 0 \<and> record_goal_id r = 0
        \<and> record_calls ops r s cs = (s', Inr (rets, r')) \<longrightarrow>
      record_demo_id r' = int (length (filter is_demo_call cs))
      \<and> record_goal_id r' = int (length (filter is_goal_call cs)))
   \<and> (files sp (sequence_file (dataset_path rp)) = Some (Events es)
        \<and> play ops rp sp keep_targets refining = Inr (timeline, r'') \<longrightarrow>
      record_demo_id r'' = int (length (filter is_demo_event es))
      \<and> record_goal_id r'' = int (length (filter is_goal_event es)))"
proof (intro conjI impI)
  assume "init ops cfg path_ds d path_plots s0 = (s1, Inr r1)"
  from init_counters[OF this] show "record_demo_id r1 = 0" "record_goal_id r1 = 0" by simp_all
next
  show "record_demo_id (snd (close ops rc sc)) = 0" "record_goal_id (snd (close ops rc sc)) = 0"
    by (simp_all add: close_def)
next
  assume a: "record_demo_id r = 0 \<and> record_goal_id r = 0
        \<and> record_calls ops r s cs = (s', Inr (rets, r'))"
  then have "record_calls ops r s cs = (s', Inr (rets, r'))" by simp
  from record_calls_counters[OF this] a
  show "record_demo_id r' = int (length (filter is_demo_call cs))"
    "record_goal_id r' = int (length (filter is_goal_call cs))" by simp_all
next
  assume a: "files sp (sequence_file (dataset_path rp)) = Some (Events es)
        \<and> play ops rp sp keep_targets refining = Inr (timeline, r'')"
  then have f: "files sp (sequence_file (dataset_path rp)) = Some (Events es)"
    and p: "play ops rp sp keep_targets refining = Inr (timeline, r'')" by simp_all
  from p have "play_loop ops keep_targets refining
               (rp\<lparr>record_demo_id := 0, record_goal_id := 0, sequence := es\<rparr>) sp es []
             = Inr (timeline, r'')"
    by (simp add: play_def read_json_def Let_def f)
  from play_loop_counters[OF this]
  show "record_demo_id r'' = int (length (filter is_demo_event es))"
    "record_goal_id r'' = int (length (filter is_goal_event es))" by simp_all
qed

text \<open>
  Claim C5. \<^verbatim>\<open>set_goal\<close> calls the learner before it writes anything: when the learner
  raises, the files are untouched. When the learner returns \<open>ret\<close> and the state \<open>l\<close>,
  the goal is written under the goal counter as it was before the call, the joint goal is
  written under the same counter exactly when it is given, the event appended carries the
  goal id and the goal log of \<open>l\<close>, the goal counter grows by one, and \<open>ret\<close> is returned.
\<close>

theorem set_goal_effect:
  "(lrn_set_goal ops (learner r) x_des joint_des None = Inl e \<longrightarrow>
      set_goal ops r s x_des joint_des = (s, Inl (LearnerError e)))
   \<and> (lrn_set_goal ops (learner r) x_des joint_des None = Inr (ret, l) \<longrightarrow>
        (\<exists>s' r'. set_goal ops r s x_des joint_des = (s', Inr (ret, r'))
           \<and> files s' (cart_goal_file (dataset_path r) (record_goal_id r)) = Some x_des
           \<and> (joint_des = None \<longrightarrow>
                files s' = (files s)(cart_goal_file (dataset_path r) (record_goal_id r) \<mapsto> x_des))
           \<and> (\<forall>v. joint_des = Some v \<longrightarrow>
                files s' = (files s)(cart_goal_file (dataset_path r) (record_goal_id r) \<mapsto> x_des,
                                     joint_goal_file (dataset_path r) (record_goal_id r) \<mapsto> v))
           \<and> sequence r' = sequence r @ [Goal (lrn_goal_id ops l) (lrn_goal_log ops l)]
           \<and> record_goal_id r' = record_goal_id r + 1
           \<and> record_demo_id r' = record_demo_id r
           \<and> learner r' = l))"
  by (auto simp: set_goal_def Let_def files_write_json file_kinds_distinct split: option.splits)

text \<open>
  Claim C6 says that when the learner fails in a recording call, the payload of that call is
  already on disk. For \<^verbatim>\<open>set_goal\<close> it is not: the learner is called first. Here the
  toy learner refuses a goal, and neither goal file exists afterwards.
\<close>

theorem set_goal_rejection_counterexample:
  "snd (set_goal toy fresh empty_fs (Events []) (Some (Raw 7))) = Inl (LearnerError ())
   \<and> files (fst (set_goal toy fresh empty_fs (Events []) (Some (Raw 7))))
       (cart_goal_file (dataset_path fresh) (record_goal_id fresh)) = None
   \<and> files (fst (set_goal toy fresh empty_fs (Events []) (Some (Raw 7))))
       (joint_goal_file (dataset_path fresh) (record_goal_id fresh)) = None"
  by (simp add: set_goal_def toy_def toy_set_goal_def empty_fs_def)

text \<open>
  Claim C6, amended. In \<^verbatim>\<open>add_demonstration\<close> a failure of the learner reaches the caller
  unchanged, after both payload files have been written. In \<^verbatim>\<open>set_goal\<close> a failure of
  the learner reaches the caller unchanged and the files are as they were before the call;
  the goal is written whenever the learner returns, whatever it returns.
\<close>

theorem rejection_persistence:
  "(lrn_add_demonstration ops (learner r) d e None = Inl x \<longrightarrow>
      snd (add_demonstration ops r s d e) = Inl (LearnerError x)
      \<and> files (fst (add_demonstration ops r s d e))
            (demo_file (dataset_path r) (record_demo_id r)) = Some d
      \<and> files (fst (add_demonstration ops r s d e))
            (path_file (dataset_path r) (record_demo_id r)) = Some e)
   \<and> (lrn_set_goal ops (learner r) x_des joint_des None = Inl x \<longrightarrow>
        set_goal ops r s x_des joint_des = (s, Inl (LearnerError x)))
   \<and> (lrn_set_goal ops (learner r) x_des joint_des None = Inr (ret, l) \<longrightarrow>
        fst (projr (snd (set_goal ops r s x_des joint_des))) = ret
        \<and> files (fst (set_goal ops r s x_des joint_des))
            (cart_goal_file (dataset_path r) (record_goal_id r)) = Some x_des)"
  by (auto simp: add_demonstration_def set_goal_def Let_def files_write_json file_kinds_distinct
      split: option.splits)

lemma scan_datasets_None:
  "(\<forall>i \<in> set ids. exists_path s (get_dataset_path path_ds i)) \<Longrightarrow> scan_datasets s path_ds ids = None"
  by (induction ids) auto

lemma scan_datasets_Some:
  "scan_datasets s path_ds ids = Some (i, p) \<Longrightarrow>
     p = get_dataset_path path_ds i \<and> \<not> exists_path s p \<and> i \<in> set ids"
  by (induction ids) (auto split: if_splits)

text \<open>
  Claim C7. With a negative dataset id and all of the paths of the ids \<open>0 .. 99\<close> in
  existence, the selection of an id returns no path, without raising, and
  \<^verbatim>\<open>self.id\<close> keeps the negative id that was asked for.
\<close>

theorem auto_id_exhausted:
  assumes "d < 0" and "\<forall>i \<in> {0..<100}. exists_path s (get_dataset_path path_ds (int i))"
  shows "generate_next_dataset s path_ds d = (d, None) \<and> resolve_dataset s path_ds d = (d, None)"
proof -
  have "scan_datasets s path_ds (map int [0..<100]) = None"
    by (rule scan_datasets_None) (use assms(2) in auto)
  with assms(1) show ?thesis by (simp add: generate_next_dataset_def resolve_dataset_def)
qed

text \<open>
  What the constructor then does with the missing path: \<^verbatim>\<open>exists(None)\<close> raises a
  \<^verbatim>\<open>TypeError\<close>.
\<close>

lemma init_exhausted:
  assumes "d < 0" and "\<forall>i \<in> {0..<100}. exists_path s (get_dataset_path path_ds (int i))"
  shows "init ops cfg path_ds d path_plots s = (s, Inl TypeError)"
proof -
  have "scan_datasets s path_ds (map int [0..<100]) = None"
    by (rule scan_datasets_None) (use assms(2) in auto)
  with assms(1) show ?thesis by (simp add: init_def generate_next_dataset_def resolve_dataset_def)
qed

lemma init_auto:
  assumes "d < 0" and "init ops cfg path_ds d path_plots s = (s1, Inr r1)"
  shows "\<not> exists_path s (dataset_path r1) \<and> exists_path s1 (dataset_path r1)
         \<and> dataset_path r1 = get_dataset_path path_ds (rid r1) \<and> 0 \<le> rid r1 \<and> rid r1 < 100"
proof -
  from assms obtain i p where
    sc: "scan_datasets s path_ds (map int [0..<100]) = Some (i, p)"
    and r: "rid r1 = i" "dataset_path r1 = p"
    and s1: "s1 = (if \<not> exists_path s p then makedirs s p else s)"
    by (auto simp: init_def resolve_dataset_def generate_next_dataset_def Let_def
        split: option.splits sum.splits prod.splits)
  from scan_datasets_Some[OF sc] r s1 show ?thesis
    by (auto simp: makedirs_def exists_path_def)
qed

text \<open>
  Claim C8. Two recorders constructed one after the other in the same datasets folder, both
  with a negative dataset id, get different ids and different paths: the first construction
  leaves its dataset path in existence, and the second takes a path that does not exist.
\<close>

theorem auto_ids_distinct:
  assumes "d1 < 0" and "d2 < 0"
    and "init ops cfg1 path_ds d1 plots1 s = (s1, Inr r1)"
    and "init ops cfg2 path_ds d2 plots2 s1 = (s2, Inr r2)"
  shows "rid r1 \<noteq> rid r2 \<and> dataset_path r1 \<noteq> dataset_path r2 \<and> exists_path s1 (dataset_path r1)"
proof -
  from init_auto[OF assms(1,3)] init_auto[OF assms(2,4)] show ?thesis by auto
qed

text \<open>
  Claim C9. For a dataset id \<open>d \<ge> 0\<close> the path is the path of \<open>d\<close>, whatever the
  file system holds; constructing twice with the same id gives the same id and path, and the
  second construction leaves the file system as the first left it.
\<close>

theorem explicit_id_path:
  assumes "0 \<le> d"
  shows "resolve_dataset s path_ds d = (d, Some (get_dataset_path path_ds d))
         \<and> resolve_dataset s' path_ds d = resolve_dataset s path_ds d
         \<and> (init ops cfg path_ds d path_plots s = (s1, Inr r1) \<longrightarrow>
              rid r1 = d \<and> dataset_path r1 = get_dataset_path path_ds d
              \<and> exists_path s1 (dataset_path r1)
              \<and> (init ops cfg path_ds d path_plots s1 = (s2, Inr r2) \<longrightarrow>
                   dataset_path r2 = dataset_path r1 \<and> rid r2 = rid r1 \<and> s2 = s1))"
  using assms
  by (auto simp: resolve_dataset_def init_def Let_def makedirs_def exists_path_def
      split: sum.splits if_splits)

text \<open>
  Claim C10. \<^verbatim>\<open>close\<close> leaves \<^verbatim>\<open>self.sequence\<close> as it is. A call of
  \<^verbatim>\<open>add_demonstration\<close> or \<^verbatim>\<open>set_goal\<close> that follows it appends its event after
  all the events recorded before, and writes its payload files under the index \<open>0\<close>.
\<close>

theorem close_keeps_sequence:
  "sequence (snd (close ops r s)) = sequence r
   \<and> (add_demonstration ops (snd (close ops r s)) (fst (close ops r s)) d e = (s', Inr (t, r')) \<longrightarrow>
        sequence r' = sequence r @ [Demo t]
        \<and> files s' (demo_file (dataset_path r) 0) = Some d
        \<and> files s' (path_file (dataset_path r) 0) = Some e)
   \<and> (set_goal ops (snd (close ops r s)) (fst (close ops r s)) x j = (s'', Inr (ret, r'')) \<longrightarrow>
        sequence r'' = sequence r @ [Goal (lrn_goal_id ops (learner r'')) (lrn_goal_log ops (learner r''))]
        \<and> files s'' (cart_goal_file (dataset_path r) 0) = Some x
        \<and> (\<forall>v. j = Some v \<longrightarrow> files s'' (joint_goal_file (dataset_path r) 0) = Some v))"
  by (auto simp: close_def add_demonstration_def set_goal_def Let_def files_write_json
      file_kinds_distinct split: sum.splits prod.splits option.splits)

section \<open>The round trip\<close>

lemma add_demonstration_files:
  "add_demonstration ops r s d e = (s', res) \<Longrightarrow>
     files s' = (files s)(demo_file (dataset_path r) (record_demo_id r) \<mapsto> d,
                          path_file (dataset_path r) (record_demo_id r) \<mapsto> e)"
  by (auto simp: add_demonstration_def Let_def files_write_json split: sum.splits prod.splits)

lemma set_goal_files:
  "set_goal ops r s x j = (s', Inr (ret, r')) \<Longrightarrow>
     files s' = (case j of
                   None \<Rightarrow> (files s)(cart_goal_file (dataset_path r) (record_goal_id r) \<mapsto> x)
                 | Some v \<Rightarrow> (files s)(cart_goal_file (dataset_path r) (record_goal_id r) \<mapsto> x,
                                        joint_goal_file (dataset_path r) (record_goal_id r) \<mapsto> v))"
  by (auto simp: set_goal_def Let_def files_write_json split: sum.splits prod.splits option.splits)

text \<open>A session writes payload files only at its own counters and above.\<close>

lemma record_calls_frame:
  "record_calls ops r s cs = (s', Inr (rets, r')) \<Longrightarrow>
     (\<forall>i < record_demo_id r.
        files s' (demo_file (dataset_path r) i) = files s (demo_file (dataset_path r) i)
        \<and> files s' (path_file (dataset_path r) i) = files s (path_file (dataset_path r) i))
     \<and> (\<forall>j < record_goal_id r.
        files s' (cart_goal_file (dataset_path r) j) = files s (cart_goal_file (dataset_path r) j)
        \<and> files s' (joint_goal_file (dataset_path r) j) = files s (joint_goal_file (dataset_path r) j))"
proof (induction cs arbitrary: r s rets)
  case Nil
  then show ?case by simp
next
  case (Cons c cs)
  show ?case
  proof (cases c)
    case (AddDemonstration d e)
    with Cons.prems obtain s1 t r1 rets1 where
      a: "add_demonstration ops r s d e = (s1, Inr (t, r1))"
      and b: "record_calls ops r1 s1 cs = (s', Inr (rets1, r'))"
      by (auto split: prod.splits sum.splits)
    from add_demonstration_counters[OF a] have c: "record_demo_id r1 = record_demo_id r + 1"
      "record_goal_id r1 = record_goal_id r" "dataset_path r1 = dataset_path r" by simp_all
    from Cons.IH[OF b] show ?thesis
      unfolding c add_demonstration_files[OF a]
      by (simp add: file_kinds_distinct file_kinds_distinct[symmetric]
          demo_file_inj path_file_inj)
  next
    case (SetGoal x j)
    with Cons.prems obtain s1 t r1 rets1 where
      a: "set_goal ops r s x j = (s1, Inr (t, r1))"
      and b: "record_calls ops r1 s1 cs = (s', Inr (rets1, r'))"
      by (auto split: prod.splits sum.splits)
    from set_goal_counters[OF a] have c: "record_demo_id r1 = record_demo_id r"
      "record_goal_id r1 = record_goal_id r + 1" "dataset_path r1 = dataset_path r" by simp_all
    from Cons.IH[OF b] show ?thesis
      unfolding c set_goal_files[OF a]
      by (cases j) (simp_all add: file_kinds_distinct file_kinds_distinct[symmetric]
          cart_goal_file_inj joint_goal_file_inj)
  qed
qed

lemma record_calls_length:
  "record_calls ops r s cs = (s', Inr (rets, r')) \<Longrightarrow> length rets = length cs"
proof (induction cs arbitrary: r s rets)
  case Nil
  then show ?case by simp
next
  case (Cons c cs)
  then show ?case by (cases c) (auto split: prod.splits sum.splits)
qed

lemma result_of_simps [simp]:
  "result_of (Inl e) = Inl e" "result_of (Inr (timeline, r)) = Inr (timeline, learner r)"
  by (simp_all add: result_of_def)

lemma replay_spec_held_cong:
  "(\<forall>k \<ge> g. held k = held' k) \<Longrightarrow>
     replay_spec ops kt rf held g l xs acc = replay_spec ops kt rf held' g l xs acc"
proof (induction ops kt rf held g l xs acc rule: replay_spec.induct)
  case (1 ops kt rf held g l timeline)
  then show ?case by simp
next
  case (2 ops kt rf held g l d e added_to rest timeline)
  then show ?case by (auto simp: Let_def split: sum.splits)
next
  case (3 ops kt rf held g l x_des joint_des ret rest timeline)
  then show ?case by (auto split: sum.splits option.splits)
next
  case (4 ops kt rf held g l d e ret rest timeline)
  then show ?case by simp
next
  case (5 ops kt rf held g l x_des joint_des t rest timeline)
  then show ?case by simp
qed

lemma replay_spec_error:
  "replay_spec ops kt rf held g l xs acc = Inl err \<Longrightarrow> \<exists>x. err = LearnerError x"
proof (induction ops kt rf held g l xs acc rule: replay_spec.induct)
  case (1 ops kt rf held g l timeline)
  then show ?case by simp
next
  case (2 ops kt rf held g l d e added_to rest timeline)
  then show ?case by (auto simp: Let_def split: sum.splits)
next
  case (3 ops kt rf held g l x_des joint_des ret rest timeline)
  then show ?case by (auto split: sum.splits if_splits)
next
  case (4 ops kt rf held g l d e ret rest timeline)
  then show ?case by simp
next
  case (5 ops kt rf held g l x_des joint_des t rest timeline)
  then show ?case by simp
qed

lemma record_calls_sequence:
  "record_calls ops r s cs = (s', Inr (rets, r')) \<Longrightarrow> \<exists>evs. sequence r' = sequence r @ evs"
proof (induction cs arbitrary: r s rets)
  case Nil
  then show ?case by simp
next
  case (Cons c cs)
  show ?case
  proof (cases c)
    case (AddDemonstration d e)
    with Cons.prems obtain s1 t r1 rets1 where
      a: "add_demonstration ops r s d e = (s1, Inr (t, r1))"
      and b: "record_calls ops r1 s1 cs = (s', Inr (rets1, r'))"
      by (auto split: prod.splits sum.splits)
    from Cons.IH[OF b] add_demonstration_counters[OF a] show ?thesis by auto
  next
    case (SetGoal x j)
    with Cons.prems obtain s1 t r1 rets1 where
      a: "set_goal ops r s x j = (s1, Inr (t, r1))"
      and b: "record_calls ops r1 s1 cs = (s', Inr (rets1, r'))"
      by (auto split: prod.splits sum.splits)
    from Cons.IH[OF b] set_goal_counters[OF a] show ?thesis by auto
  qed
qed

lemma play_next_demo_read:
  "files s (demo_file (dataset_path r) (record_demo_id r)) = Some d \<Longrightarrow>
   files s (path_file (dataset_path r) (record_demo_id r)) = Some e \<Longrightarrow>
   play_next_demo ops r s t =
     (case lrn_add_demonstration ops (learner r) d e
             (Some (if lrn_num_primitives ops (learner r) \<le> t then - 1 else t)) of
        Inl x \<Rightarrow> Inl (LearnerError x)
      | Inr (target, l) \<Rightarrow> Inr (target, r\<lparr>record_demo_id := record_demo_id r + 1, learner := l\<rparr>))"
  by (simp add: play_next_demo_def read_json_def promp_target_def)

lemma play_next_goal_read:
  "files s (cart_goal_file (dataset_path r) (record_goal_id r)) = Some x \<Longrightarrow>
   files s (joint_goal_file (dataset_path r) (record_goal_id r)) = j \<Longrightarrow>
   play_next_goal ops r s refining =
     (case lrn_set_goal ops (learner r) x j (Some refining) of
        Inl e \<Rightarrow> Inl (LearnerError e)
      | Inr (result, l) \<Rightarrow>
          (if result
           then (case lrn_generate_trajectory ops l of
                   Inl e \<Rightarrow> Inl (LearnerError e)
                 | Inr (trajectory, l') \<Rightarrow>
                     Inr ((result, Some trajectory),
                          r\<lparr>record_goal_id := record_goal_id r + 1, learner := l'\<rparr>))
           else Inr ((result, None),
                     r\<lparr>record_goal_id := record_goal_id r + 1, learner := l\<rparr>)))"
  by (cases j) (auto simp: play_next_goal_def read_json_def isfile_def Let_def)

text \<open>
  The replay of the events of a session, on any file system that holds the payload files
  as the session left them, is the replay of the spec over the calls of the session.
\<close>

lemma play_loop_session:
  "record_calls ops r s cs = (s', Inr (rets, r')) \<Longrightarrow>
     (\<forall>i. files sF (demo_file (dataset_path r) i) = files s' (demo_file (dataset_path r) i)
         \<and> files sF (path_file (dataset_path r) i) = files s' (path_file (dataset_path r) i)
         \<and> files sF (cart_goal_file (dataset_path r) i) = files s' (cart_goal_file (dataset_path r) i)
         \<and> files sF (joint_goal_file (dataset_path r) i) = files s' (joint_goal_file (dataset_path r) i)) \<Longrightarrow>
     dataset_path q = dataset_path r \<Longrightarrow> record_demo_id q = record_demo_id r \<Longrightarrow>
     record_goal_id q = record_goal_id r \<Longrightarrow>
     result_of
         (play_loop ops kt rf q sF (drop (length (sequence r)) (sequence r')) acc)
       = replay_spec ops kt rf (\<lambda>g. files s (joint_goal_file (dataset_path r) g))
           (record_goal_id r) (learner q) (zip cs rets) acc
     \<and> (\<forall>tl q'. play_loop ops kt rf q sF (drop (length (sequence r)) (sequence r')) acc
                    = Inr (tl, q') \<longrightarrow>
           (\<exists>tl'. tl = acc @ tl' \<and> map is_demo_outcome tl' = map is_demo_call cs))"
proof (induction cs arbitrary: r s rets q acc)
  case Nil
  then show ?case by simp
next
  case (Cons c cs)
  let ?dp = "dataset_path r"
  show ?case
  proof (cases c)
    case (AddDemonstration d e)
    with Cons.prems(1) obtain s1 t r1 rets1 where
      a: "add_demonstration ops r s d e = (s1, Inr (t, r1))"
      and b: "record_calls ops r1 s1 cs = (s', Inr (rets1, r'))"
      and rets: "rets = Added t # rets1"
      by (auto split: prod.splits sum.splits)
    from add_demonstration_counters[OF a] have c: "record_demo_id r1 = record_demo_id r + 1"
      "record_goal_id r1 = record_goal_id r" "dataset_path r1 = ?dp"
      "sequence r1 = sequence r @ [Demo t]" by simp_all
    from record_calls_sequence[OF b] obtain evs1 where evs1: "sequence r' = sequence r1 @ evs1"
      by blast
    have dr: "drop (length (sequence r)) (sequence r') = Demo t # evs1"
      "drop (length (sequence r1)) (sequence r') = evs1"
      using evs1 c by simp_all
    have f1: "files s1 = (files s)(demo_file ?dp (record_demo_id r) \<mapsto> d,
                                   path_file ?dp (record_demo_id r) \<mapsto> e)"
      by (rule add_demonstration_files[OF a])
    from record_calls_frame[OF b] c
    have "files s' (demo_file ?dp (record_demo_id r)) = files s1 (demo_file ?dp (record_demo_id r))"
      "files s' (path_file ?dp (record_demo_id r)) = files s1 (path_file ?dp (record_demo_id r))"
      by simp_all
    with f1 Cons.prems(2)
    have rd: "files sF (demo_file (dataset_path q) (record_demo_id q)) = Some d"
      "files sF (path_file (dataset_path q) (record_demo_id q)) = Some e"
      by (simp_all add: file_kinds_distinct Cons.prems(3,4))
    note step = play_next_demo_read[OF rd, of ops]
    have held: "(\<lambda>g. files s1 (joint_goal_file ?dp g))
                  = (\<lambda>g. files s (joint_goal_file ?dp g))"
      using f1 by (simp add: file_kinds_distinct[symmetric])
    have agree: "\<forall>i. files sF (demo_file (dataset_path r1) i) = files s' (demo_file (dataset_path r1) i)
         \<and> files sF (path_file (dataset_path r1) i) = files s' (path_file (dataset_path r1) i)
         \<and> files sF (cart_goal_file (dataset_path r1) i) = files s' (cart_goal_file (dataset_path r1) i)
         \<and> files sF (joint_goal_file (dataset_path r1) i) = files s' (joint_goal_file (dataset_path r1) i)"
      using Cons.prems(2) c by simp
    let ?recv = "if kt then t else - 1"
    let ?tg = "if lrn_num_primitives ops (learner q) \<le> ?recv then - 1 else ?recv"
    show ?thesis
    proof (cases "lrn_add_demonstration ops (learner q) d e (Some ?tg)")
      case (Inl x)
      then show ?thesis
        using step AddDemonstration rets dr by (simp add: Let_def)
    next
      case (Inr res)
      then obtain target l' where res: "res = (target, l')" by (cases res)
      define q1 where "q1 = q\<lparr>record_demo_id := record_demo_id q + 1, learner := l'\<rparr>"
      have q1: "dataset_path q1 = dataset_path r1" "record_demo_id q1 = record_demo_id r1"
        "record_goal_id q1 = record_goal_id r1" "learner q1 = l'"
        using Cons.prems(3-5) c by (simp_all add: q1_def)
      from Cons.IH[OF b agree q1(1-3), of "acc @ [DemoOutcome target]"]
      have ih: "result_of
                  (play_loop ops kt rf q1 sF evs1 (acc @ [DemoOutcome target]))
                = replay_spec ops kt rf (\<lambda>g. files s (joint_goal_file ?dp g))
                    (record_goal_id r) l' (zip cs rets1) (acc @ [DemoOutcome target])"
        and ih2: "\<forall>tl q'. play_loop ops kt rf q1 sF evs1 (acc @ [DemoOutcome target]) = Inr (tl, q') \<longrightarrow>
                    (\<exists>tl'. tl = (acc @ [DemoOutcome target]) @ tl'
                       \<and> map is_demo_outcome tl' = map is_demo_call cs)"
        by (simp_all add: dr(2) c(2,3) held q1(4))
      have pl: "play_loop ops kt rf q sF (Demo t # evs1) acc
                  = play_loop ops kt rf q1 sF evs1 (acc @ [DemoOutcome target])"
        using step Inr res by (simp add: q1_def)
      have rs: "replay_spec ops kt rf (\<lambda>g. files s (joint_goal_file ?dp g))
                  (record_goal_id r) (learner q) (zip (c # cs) rets) acc
                = replay_spec ops kt rf (\<lambda>g. files s (joint_goal_file ?dp g))
                    (record_goal_id r) l' (zip cs rets1) (acc @ [DemoOutcome target])"
        using Inr res AddDemonstration rets by (simp add: Let_def)
      have "result_of (play_loop ops kt rf q sF (Demo t # evs1) acc)
              = replay_spec ops kt rf (\<lambda>g. files s (joint_goal_file ?dp g))
                  (record_goal_id r) (learner q) (zip (c # cs) rets) acc"
        unfolding pl rs by (rule ih)
      moreover have "\<forall>tl q'. play_loop ops kt rf q sF (Demo t # evs1) acc = Inr (tl, q') \<longrightarrow>
           (\<exists>tl'. tl = acc @ tl' \<and> map is_demo_outcome tl' = map is_demo_call (c # cs))"
        unfolding pl
      proof (intro allI impI)
        fix tl q'
        assume "play_loop ops kt rf q1 sF evs1 (acc @ [DemoOutcome target]) = Inr (tl, q')"
        with ih2 obtain tl' where "tl = (acc @ [DemoOutcome target]) @ tl'"
          "map is_demo_outcome tl' = map is_demo_call cs" by metis
        then have "tl = acc @ (DemoOutcome target # tl')"
          "map is_demo_outcome (DemoOutcome target # tl') = map is_demo_call (c # cs)"
          using AddDemonstration by simp_all
        then show "\<exists>tl'. tl = acc @ tl' \<and> map is_demo_outcome tl' = map is_demo_call (c # cs)"
          by blast
      qed
      ultimately show ?thesis unfolding dr by blast
    qed
  next
    case (SetGoal x j)
    with Cons.prems(1) obtain s1 ret r1 rets1 where
      a: "set_goal ops r s x j = (s1, Inr (ret, r1))"
      and b: "record_calls ops r1 s1 cs = (s', Inr (rets1, r'))"
      and rets: "rets = Reached ret # rets1"
      by (auto split: prod.splits sum.splits)
    let ?ev = "Goal (lrn_goal_id ops (learner r1)) (lrn_goal_log ops (learner r1))"
    from set_goal_counters[OF a] have c: "record_demo_id r1 = record_demo_id r"
      "record_goal_id r1 = record_goal_id r + 1" "dataset_path r1 = ?dp"
      "sequence r1 = sequence r @ [?ev]"
      by simp_all
    from record_calls_sequence[OF b] obtain evs1 where evs1: "sequence r' = sequence r1 @ evs1"
      by blast
    have dr: "drop (length (sequence r)) (sequence r') = ?ev # evs1"
      "drop (length (sequence r1)) (sequence r') = evs1"
      using evs1 c by simp_all
    note f1 = set_goal_files[OF a]
    from record_calls_frame[OF b] c
    have keep: "files s' (cart_goal_file ?dp (record_goal_id r)) = files s1 (cart_goal_file ?dp (record_goal_id r))"
      "files s' (joint_goal_file ?dp (record_goal_id r)) = files s1 (joint_goal_file ?dp (record_goal_id r))"
      by simp_all
    let ?held = "\<lambda>g. files s (joint_goal_file ?dp g)"
    let ?jd = "case j of None \<Rightarrow> ?held (record_goal_id r) | Some v \<Rightarrow> Some v"
    have rc: "files sF (cart_goal_file (dataset_path q) (record_goal_id q)) = Some x"
      using keep(1) f1 Cons.prems(2) by (cases j) (simp_all add: file_kinds_distinct Cons.prems(3,5))
    have rj: "files sF (joint_goal_file (dataset_path q) (record_goal_id q)) = ?jd"
      using keep(2) f1 Cons.prems(2)
      by (cases j) (simp_all add: file_kinds_distinct[symmetric] Cons.prems(3,5))
    note step = play_next_goal_read[OF rc rj, of ops rf]
    have held: "\<forall>k \<ge> record_goal_id r + 1.
                  (\<lambda>g. files s1 (joint_goal_file ?dp g)) k = ?held k"
      using f1 by (cases j) (simp_all add: file_kinds_distinct[symmetric] joint_goal_file_inj)
    have agree: "\<forall>i. files sF (demo_file (dataset_path r1) i) = files s' (demo_file (dataset_path r1) i)
         \<and> files sF (path_file (dataset_path r1) i) = files s' (path_file (dataset_path r1) i)
         \<and> files sF (cart_goal_file (dataset_path r1) i) = files s' (cart_goal_file (dataset_path r1) i)
         \<and> files sF (joint_goal_file (dataset_path r1) i) = files s' (joint_goal_file (dataset_path r1) i)"
      using Cons.prems(2) c by simp
    have ih_gen: "result_of (play_loop ops kt rf q1 sF evs1 acc1)
                = replay_spec ops kt rf ?held (record_goal_id r + 1) (learner q1) (zip cs rets1) acc1
            \<and> (\<forall>tl q'. play_loop ops kt rf q1 sF evs1 acc1 = Inr (tl, q') \<longrightarrow>
                    (\<exists>tl'. tl = acc1 @ tl' \<and> map is_demo_outcome tl' = map is_demo_call cs))"
      if "dataset_path q1 = dataset_path r1" "record_demo_id q1 = record_demo_id r1"
        "record_goal_id q1 = record_goal_id r1" for q1 acc1
      using Cons.IH[OF b agree that, of acc1]
        replay_spec_held_cong[OF held, of ops kt rf "learner q1" "zip cs rets1" acc1]
      by (simp add: dr(2) c(2,3))
    have tail: "result_of (play_loop ops kt rf q sF (?ev # evs1) acc)
              = replay_spec ops kt rf ?held (record_goal_id r) (learner q) (zip (c # cs) rets) acc
           \<and> (\<forall>tl q'. play_loop ops kt rf q sF (?ev # evs1) acc = Inr (tl, q') \<longrightarrow>
                 (\<exists>tl'. tl = acc @ tl' \<and> map is_demo_outcome tl' = map is_demo_call (c # cs)))"
      if pl: "play_loop ops kt rf q sF (?ev # evs1) acc = play_loop ops kt rf q1 sF evs1 (acc @ [out])"
        and rs: "replay_spec ops kt rf ?held (record_goal_id r) (learner q) (zip (c # cs) rets) acc
                 = replay_spec ops kt rf ?held (record_goal_id r + 1) (learner q1) (zip cs rets1) (acc @ [out])"
        and q1: "dataset_path q1 = dataset_path r1" "record_demo_id q1 = record_demo_id r1"
          "record_goal_id q1 = record_goal_id r1"
        and out: "\<not> is_demo_outcome out"
      for q1 out
    proof -
      note ih = ih_gen[OF q1, of "acc @ [out]"]
      have k: "\<exists>tl'. tl = acc @ tl' \<and> map is_demo_outcome tl' = map is_demo_call (c # cs)"
        if "play_loop ops kt rf q1 sF evs1 (acc @ [out]) = Inr (tl, q')" for tl q'
      proof -
        from that ih obtain tl' where "tl = (acc @ [out]) @ tl'"
          "map is_demo_outcome tl' = map is_demo_call cs" by metis
        then have "tl = acc @ (out # tl')"
          "map is_demo_outcome (out # tl') = map is_demo_call (c # cs)"
          using SetGoal out by simp_all
        then show ?thesis by blast
      qed
      show ?thesis unfolding pl rs using ih k by blast
    qed
    show ?thesis
    proof (cases "lrn_set_goal ops (learner q) x ?jd (Some rf)")
      case (Inl e)
      then show ?thesis
        using step SetGoal rets dr by simp
    next
      case (Inr res)
      then obtain accepted l' where res: "res = (accepted, l')" by (cases res)
      show ?thesis
      proof (cases accepted)
        case False
        define q1 where "q1 = q\<lparr>record_goal_id := record_goal_id q + 1, learner := l'\<rparr>"
        have q1: "dataset_path q1 = dataset_path r1" "record_demo_id q1 = record_demo_id r1"
          "record_goal_id q1 = record_goal_id r1" "learner q1 = l'"
          using Cons.prems(3-5) c by (simp_all add: q1_def)
        let ?out = "GoalOutcome False (lrn_goal_log ops l') None"
        have pl: "play_loop ops kt rf q sF (?ev # evs1) acc
                    = play_loop ops kt rf q1 sF evs1 (acc @ [?out])"
          using step Inr res False by (simp add: q1_def)
        have rs: "replay_spec ops kt rf ?held (record_goal_id r) (learner q) (zip (c # cs) rets) acc
                 = replay_spec ops kt rf ?held (record_goal_id r + 1) (learner q1) (zip cs rets1) (acc @ [?out])"
          using Inr res False SetGoal rets q1(4) by simp
        from tail[OF pl rs q1(1-3)] show ?thesis unfolding dr by simp
      next
        case True
        show ?thesis
        proof (cases "lrn_generate_trajectory ops l'")
          case (Inl e)
          then show ?thesis
            using step \<open>lrn_set_goal ops (learner q) x ?jd (Some rf) = Inr res\<close> res True
              SetGoal rets dr by simp
        next
          case trj: (Inr tr)
          then obtain trajectory l'' where tr: "tr = (trajectory, l'')" by (cases tr)
          define q1 where "q1 = q\<lparr>record_goal_id := record_goal_id q + 1, learner := l''\<rparr>"
          have q1: "dataset_path q1 = dataset_path r1" "record_demo_id q1 = record_demo_id r1"
            "record_goal_id q1 = record_goal_id r1" "learner q1 = l''"
            using Cons.prems(3-5) c by (simp_all add: q1_def)
          let ?out = "GoalOutcome True (lrn_goal_log ops l'') (Some trajectory)"
          have pl: "play_loop ops kt rf q sF (?ev # evs1) acc
                      = play_loop ops kt rf q1 sF evs1 (acc @ [?out])"
            using step Inr res True trj tr by (simp add: q1_def)
          have rs: "replay_spec ops kt rf ?held (record_goal_id r) (learner q) (zip (c # cs) rets) acc
                   = replay_spec ops kt rf ?held (record_goal_id r + 1) (learner q1) (zip cs rets1) (acc @ [?out])"
            using Inr res True trj tr SetGoal rets q1(4) by simp
          from tail[OF pl rs q1(1-3)] show ?thesis unfolding dr by simp
        qed
      qed
    qed
  qed
qed

lemma play_after_session:
  assumes "record_demo_id r = 0" and "record_goal_id r = 0" and "sequence r = []"
    and "record_calls ops r s cs = (s1, Inr (rets, r1))"
    and "close ops r1 s1 = (s2, r2)"
  shows "result_of (play ops (r2\<lparr>learner := l0\<rparr>) s2 keep_targets refining)
           = replay_spec ops keep_targets refining
               (\<lambda>g. files s (joint_goal_file (dataset_path r) g)) 0 l0 (zip cs rets) []"
    and "play ops (r2\<lparr>learner := l0\<rparr>) s2 keep_targets refining = Inr (timeline, r3) \<Longrightarrow>
           map is_demo_outcome timeline = map is_demo_call cs"
proof -
  from record_calls_counters[OF assms(4)] have dp: "dataset_path r1 = dataset_path r" by simp
  from assms(5) have s2: "files s2 = (files s1)(sequence_file (dataset_path r) \<mapsto> Events (sequence r1))"
    and r2: "r2 = r1\<lparr>record_demo_id := 0, record_goal_id := 0, learner := lrn_clear ops (learner r1)\<rparr>"
    by (auto simp: close_def files_write_json dp)
  define q where "q = r2\<lparr>learner := l0, record_demo_id := 0, record_goal_id := 0,
                         sequence := sequence r1\<rparr>"
  have agree: "\<forall>i. files s2 (demo_file (dataset_path r) i) = files s1 (demo_file (dataset_path r) i)
         \<and> files s2 (path_file (dataset_path r) i) = files s1 (path_file (dataset_path r) i)
         \<and> files s2 (cart_goal_file (dataset_path r) i) = files s1 (cart_goal_file (dataset_path r) i)
         \<and> files s2 (joint_goal_file (dataset_path r) i) = files s1 (joint_goal_file (dataset_path r) i)"
    by (simp add: s2 file_kinds_distinct)
  have q: "dataset_path q = dataset_path r" "record_demo_id q = record_demo_id r"
    "record_goal_id q = record_goal_id r" "learner q = l0"
    using assms(1,2) dp by (simp_all add: q_def r2)
  have pl: "play ops (r2\<lparr>learner := l0\<rparr>) s2 keep_targets refining
              = play_loop ops keep_targets refining q s2 (sequence r1) []"
    by (simp add: play_def read_json_def Let_def s2 r2 dp q_def)
  from play_loop_session[OF assms(4) agree q(1-3), where kt = keep_targets and rf = refining and acc = "[]"]
  have a: "result_of (play_loop ops keep_targets refining q s2 (sequence r1) [])
             = replay_spec ops keep_targets refining
                 (\<lambda>g. files s (joint_goal_file (dataset_path r) g)) 0 l0 (zip cs rets) []"
    and b: "\<And>tl q'. play_loop ops keep_targets refining q s2 (sequence r1) [] = Inr (tl, q') \<Longrightarrow>
              map is_demo_outcome tl = map is_demo_call cs"
    using assms(2,3) q(4) by auto
  show "result_of (play ops (r2\<lparr>learner := l0\<rparr>) s2 keep_targets refining)
           = replay_spec ops keep_targets refining
               (\<lambda>g. files s (joint_goal_file (dataset_path r) g)) 0 l0 (zip cs rets) []"
    unfolding pl by (rule a)
  show "map is_demo_outcome timeline = map is_demo_call cs"
    if "play ops (r2\<lparr>learner := l0\<rparr>) s2 keep_targets refining = Inr (timeline, r3)"
    using that b unfolding pl by blast
qed


text \<open>
  Claim C4, amended. \<^verbatim>\<open>close\<close> writes the whole in-memory sequence to the manifest
  file, as one write that replaces what the file held, sets both counters to \<open>0\<close> and
  clears the learner. Every other file, and so every payload file, is as it was, and a
  following \<^verbatim>\<open>play\<close> replays exactly the sequence written. When that sequence was
  recorded in one session on a recorder with both counters at \<open>0\<close> and an empty
  sequence, the manifest is replayable: every file that \<^verbatim>\<open>play\<close> reads is there,
  and \<^verbatim>\<open>play\<close> can fail only through the Learner.
\<close>

theorem close_effect:
  "files (fst (close ops r s)) = (files s)(sequence_file (dataset_path r) \<mapsto> Events (sequence r))
   \<and> dirs (fst (close ops r s)) = dirs s
   \<and> record_demo_id (snd (close ops r s)) = 0
   \<and> record_goal_id (snd (close ops r s)) = 0
   \<and> learner (snd (close ops r s)) = lrn_clear ops (learner r)
   \<and> dataset_path (snd (close ops r s)) = dataset_path r
   \<and> (\<forall>p. p \<noteq> sequence_file (dataset_path r) \<longrightarrow> files (fst (close ops r s)) p = files s p)
   \<and> (\<forall>i. files (fst (close ops r s)) (demo_file (dataset_path r) i)
             = files s (demo_file (dataset_path r) i)
          \<and> files (fst (close ops r s)) (path_file (dataset_path r) i)
             = files s (path_file (dataset_path r) i)
          \<and> files (fst (close ops r s)) (cart_goal_file (dataset_path r) i)
             = files s (cart_goal_file (dataset_path r) i)
          \<and> files (fst (close ops r s)) (joint_goal_file (dataset_path r) i)
             = files s (joint_goal_file (dataset_path r) i))
   \<and> play ops (snd (close ops r s)) (fst (close ops r s)) keep_targets refining
       = play_loop ops keep_targets refining (snd (close ops r s)) (fst (close ops r s))
           (sequence r) []
   \<and> (record_demo_id r0 = 0 \<and> record_goal_id r0 = 0 \<and> sequence r0 = []
        \<and> record_calls ops r0 s0 cs = (s, Inr (rets, r)) \<longrightarrow>
      (\<forall>err. play ops (snd (close ops r s)) (fst (close ops r s)) keep_targets refining = Inl err
              \<longrightarrow> (\<exists>x. err = LearnerError x)))"
proof -
  have m: "files (fst (close ops r s)) (sequence_file (dataset_path (snd (close ops r s))))
             = Some (Events (sequence r))"
    by (simp add: close_def files_write_json)
  have q: "(snd (close ops r s))\<lparr>record_demo_id := 0, record_goal_id := 0,
             sequence := sequence r\<rparr> = snd (close ops r s)"
    by (cases r) (simp add: close_def)
  have replay: "play ops (snd (close ops r s)) (fst (close ops r s)) keep_targets refining
       = play_loop ops keep_targets refining (snd (close ops r s)) (fst (close ops r s))
           (sequence r) []"
    unfolding play_def Let_def read_json_def m by (simp add: q)
  have rest: "files (fst (close ops r s))
                = (files s)(sequence_file (dataset_path r) \<mapsto> Events (sequence r))"
    "dirs (fst (close ops r s)) = dirs s"
    "record_demo_id (snd (close ops r s)) = 0"
    "record_goal_id (snd (close ops r s)) = 0"
    "learner (snd (close ops r s)) = lrn_clear ops (learner r)"
    "dataset_path (snd (close ops r s)) = dataset_path r"
    by (simp_all add: close_def files_write_json dirs_write_json)
  have reads: "\<exists>x. err = LearnerError x"
    if f: "record_demo_id r0 = 0 \<and> record_goal_id r0 = 0 \<and> sequence r0 = []
        \<and> record_calls ops r0 s0 cs = (s, Inr (rets, r))"
      and e: "play ops (snd (close ops r s)) (fst (close ops r s)) keep_targets refining = Inl err"
    for err
  proof -
    have c: "close ops r s = (fst (close ops r s), snd (close ops r s))" by simp
    have same: "(snd (close ops r s))\<lparr>learner := lrn_clear ops (learner r)\<rparr> = snd (close ops r s)"
      by (cases r) (simp add: close_def)
    from f have f': "record_demo_id r0 = 0" "record_goal_id r0 = 0" "sequence r0 = []"
      "record_calls ops r0 s0 cs = (s, Inr (rets, r))" by simp_all
    from play_after_session(1)[OF f' c, of "lrn_clear ops (learner r)" keep_targets refining] e
    have "replay_spec ops keep_targets refining
            (\<lambda>g. files s0 (joint_goal_file (dataset_path r0) g)) 0 (lrn_clear ops (learner r))
            (zip cs rets) [] = Inl err"
      unfolding same by simp
    then show ?thesis by (rule replay_spec_error)
  qed
  show ?thesis
    using replay reads by (simp add: rest file_kinds_distinct)
qed

section \<open>Concrete runs\<close>

lemma names_eval:
  "get_dataset_path ''ds'' 0 = ''ds/dataset_0''"
  "get_dataset_path ''ds'' 1 = ''ds/dataset_1''"
  "demo_file ''ds/dataset_0'' 0 = ''ds/dataset_0/demo_0.json''"
  "demo_file ''ds/dataset_0'' 1 = ''ds/dataset_0/demo_1.json''"
  "path_file ''ds/dataset_0'' 0 = ''ds/dataset_0/path_0.json''"
  "path_file ''ds/dataset_0'' 1 = ''ds/dataset_0/path_1.json''"
  "cart_goal_file ''ds/dataset_0'' 0 = ''ds/dataset_0/cart_goal_0.json''"
  "joint_goal_file ''ds/dataset_0'' 0 = ''ds/dataset_0/joint_goal_0.json''"
  "sequence_file ''ds/dataset_0'' = ''ds/dataset_0/sequence.json''"
  by (simp_all add: get_dataset_path_def demo_file_def path_file_def cart_goal_file_def
      joint_goal_file_def sequence_file_def join_def str_int_0 str_int_1)

lemmas toy_defs = toy_def toy_add_demonstration_def toy_set_goal_def

lemma fs_eqI: "dirs a = dirs b \<Longrightarrow> (\<And>p. files a p = files b p) \<Longrightarrow> a = (b :: nat fs)"
  by (cases a, cases b) (auto intro: ext)

lemma session_run:
  "record_calls toy fresh fs_dir session = (fs_recorded, Inr ([Added 0, Reached True], recorded))"
  by (simp add: session_def fresh_def fs_dir_def fs_recorded_def recorded_def
      add_demonstration_def set_goal_def Let_def write_json_def toy_defs names_eval)

lemma close_run: "close toy recorded fs_recorded = (fs_closed, closed)"
  by (simp add: close_def recorded_def fs_recorded_def fs_closed_def closed_def write_json_def
      toy_defs names_eval)

lemma play_run:
  "play toy closed fs_closed True True
     = Inr ([DemoOutcome 0, GoalOutcome True 0 (Some 0)],
            closed\<lparr>record_demo_id := 1, record_goal_id := 1, learner := 1\<rparr>)"
  by (simp add: play_def closed_def fs_closed_def read_json_def Let_def names_eval
      play_next_demo_def play_next_goal_def isfile_def promp_target_def toy_defs)

lemma rerecord_run:
  "record_calls toy closed fs_closed [AddDemonstration (Raw 4) (Raw 5)]
     = (fs_rerecorded, Inr ([Added 0], rerecorded))"
proof -
  have "fst (record_calls toy closed fs_closed [AddDemonstration (Raw 4) (Raw 5)]) = fs_rerecorded"
    by (rule fs_eqI)
      (simp_all add: closed_def fs_closed_def fs_rerecorded_def add_demonstration_def Let_def
        write_json_def toy_defs names_eval)
  moreover have "snd (record_calls toy closed fs_closed [AddDemonstration (Raw 4) (Raw 5)])
                  = Inr ([Added 0], rerecorded)"
    by (simp add: closed_def rerecorded_def add_demonstration_def Let_def toy_defs)
  ultimately show ?thesis by (metis prod.collapse)
qed

lemma close_second_run: "close toy rerecorded fs_rerecorded = (fs_second, closed_second)"
proof -
  have "fst (close toy rerecorded fs_rerecorded) = fs_second"
    by (rule fs_eqI)
      (simp_all add: close_def rerecorded_def fs_rerecorded_def fs_second_def write_json_def
        names_eval)
  moreover have "snd (close toy rerecorded fs_rerecorded) = closed_second"
    by (simp add: close_def rerecorded_def closed_second_def toy_defs)
  ultimately show ?thesis by (metis prod.collapse)
qed

lemma scan_datasets_upt:
  "a < b \<Longrightarrow> scan_datasets s path_ds (map int [a..<b])
     = (if \<not> exists_path s (get_dataset_path path_ds (int a))
        then Some (int a, get_dataset_path path_ds (int a))
        else scan_datasets s path_ds (map int [Suc a..<b]))"
  by (simp add: upt_conv_Cons)

lemma init_run: "init toy () ''ds'' (- 1) ''plots'' empty_fs = (fs_dir, Inr fresh)"
  by (simp add: init_def resolve_dataset_def generate_next_dataset_def scan_datasets_upt
      exists_path_def makedirs_def empty_fs_def fs_dir_def fresh_def toy_defs names_eval Let_def)

lemma init_second_run: "init toy () ''ds'' (- 1) ''plots'' fs_dir = (fs_two, Inr fresh_1)"
  by (simp add: init_def resolve_dataset_def generate_next_dataset_def scan_datasets_upt
      exists_path_def makedirs_def fs_dir_def fs_two_def fresh_1_def toy_defs names_eval Let_def)

lemma init_explicit_run: "init toy () ''ds'' 0 ''plots'' empty_fs = (fs_dir, Inr fresh)"
  by (simp add: init_def resolve_dataset_def 
      exists_path_def makedirs_def empty_fs_def fs_dir_def fresh_def toy_defs names_eval Let_def)

lemma init_reopen_run: "init toy () ''ds'' 0 ''plots'' fs_dir = (fs_dir, Inr fresh)"
  by (simp add: init_def resolve_dataset_def 
      exists_path_def makedirs_def fs_dir_def fresh_def toy_defs names_eval Let_def)

theorem play_next_demo_target_witness:
  "play_next_demo toy closed fs_closed 7 = Inr (0, closed\<lparr>record_demo_id := 1, learner := 1\<rparr>)
   \<and> promp_target (lrn_num_primitives toy (learner closed)) 7 = - 1"
proof -
  have d: "files fs_closed (demo_file (dataset_path closed) (record_demo_id closed)) = Some (Raw 1)"
    and e: "files fs_closed (path_file (dataset_path closed) (record_demo_id closed)) = Some (Raw 2)"
    by (simp_all add: fs_closed_def closed_def names_eval)
  show ?thesis
    using play_next_demo_target[OF d e, of toy 7]
    by (simp add: toy_defs closed_def promp_target_def)
qed

subsection \<open>The claims on the concrete run\<close>

theorem counter_monotonicity_witness:
  "record_demo_id fresh = 0 \<and> record_goal_id fresh = 0
   \<and> record_demo_id (snd (close toy recorded fs_recorded)) = 0
   \<and> record_goal_id (snd (close toy recorded fs_recorded)) = 0
   \<and> record_demo_id recorded = 1 \<and> record_goal_id recorded = 1
   \<and> record_demo_id (closed\<lparr>record_demo_id := 1, record_goal_id := 1, learner := 1\<rparr>) = 1
   \<and> record_goal_id (closed\<lparr>record_demo_id := 1, record_goal_id := 1, learner := 1\<rparr>) = 1"
proof -
  have z: "record_demo_id fresh = 0 \<and> record_goal_id fresh = 0
           \<and> record_calls toy fresh fs_dir session
               = (fs_recorded, Inr ([Added 0, Reached True], recorded))"
    using session_run by (simp add: fresh_def)
  have m: "files fs_closed (sequence_file (dataset_path closed)) = Some (Events [Demo 0, Goal 0 0])
           \<and> play toy closed fs_closed True True
               = Inr ([DemoOutcome 0, GoalOutcome True 0 (Some 0)],
                      closed\<lparr>record_demo_id := 1, record_goal_id := 1, learner := 1\<rparr>)"
    using play_run by (simp add: fs_closed_def closed_def names_eval)
  show ?thesis
    using counter_monotonicity[of toy "()" "''ds''" "- 1" "''plots''" empty_fs fs_dir fresh
        recorded fs_recorded fresh fs_dir session fs_recorded "[Added 0, Reached True]" recorded
        fs_closed closed "[Demo 0, Goal 0 0]" True True
        "[DemoOutcome 0, GoalOutcome True 0 (Some 0)]"
        "closed\<lparr>record_demo_id := 1, record_goal_id := 1, learner := 1\<rparr>"]
      init_run z m
    by (simp add: session_def)
qed

theorem set_goal_effect_witness:
  "set_goal toy fresh fs_dir (Events []) None = (fs_dir, Inl (LearnerError ()))
   \<and> (\<exists>s' r'. set_goal toy recorded fs_recorded (Raw 8) (Some (Raw 9)) = (s', Inr (True, r'))
         \<and> files s' (cart_goal_file (dataset_path recorded) (record_goal_id recorded)) = Some (Raw 8)
         \<and> files s' (joint_goal_file (dataset_path recorded) (record_goal_id recorded)) = Some (Raw 9)
         \<and> sequence r' = [Demo 0, Goal 0 0, Goal 0 0]
         \<and> record_goal_id r' = 2)"
proof -
  have a: "lrn_set_goal toy (learner fresh) (Events []) None None = Inl ()"
    by (simp add: toy_defs)
  have b: "lrn_set_goal toy (learner recorded) (Raw 8) (Some (Raw 9)) None = Inr (True, 1)"
    by (simp add: toy_defs recorded_def)
  from set_goal_effect[where ops = toy and r = fresh and x_des = "Events []"
      and joint_des = None and e = "()" and s = fs_dir] a
  have 1: "set_goal toy fresh fs_dir (Events []) None = (fs_dir, Inl (LearnerError ()))"
    by blast
  from set_goal_effect[where ops = toy and r = recorded and x_des = "Raw 8"
      and joint_des = "Some (Raw 9)" and s = fs_recorded and ret = True and l = 1] b
  obtain s' r' where
    "set_goal toy recorded fs_recorded (Raw 8) (Some (Raw 9)) = (s', Inr (True, r'))"
    "files s' = (files fs_recorded)
        (cart_goal_file (dataset_path recorded) (record_goal_id recorded) \<mapsto> Raw 8,
         joint_goal_file (dataset_path recorded) (record_goal_id recorded) \<mapsto> Raw 9)"
    "sequence r' = sequence recorded @ [Goal (lrn_goal_id toy 1) (lrn_goal_log toy 1)]"
    "record_goal_id r' = record_goal_id recorded + 1"
    by blast
  then have "set_goal toy recorded fs_recorded (Raw 8) (Some (Raw 9)) = (s', Inr (True, r'))
         \<and> files s' (cart_goal_file (dataset_path recorded) (record_goal_id recorded)) = Some (Raw 8)
         \<and> files s' (joint_goal_file (dataset_path recorded) (record_goal_id recorded)) = Some (Raw 9)
         \<and> sequence r' = [Demo 0, Goal 0 0, Goal 0 0]
         \<and> record_goal_id r' = 2"
    by (simp add: file_kinds_distinct recorded_def toy_defs)
  with 1 show ?thesis by blast
qed

theorem rejection_persistence_witness:
  "snd (add_demonstration toy fresh fs_dir (Events []) (Raw 2)) = Inl (LearnerError ())
   \<and> files (fst (add_demonstration toy fresh fs_dir (Events []) (Raw 2)))
        (demo_file (dataset_path fresh) (record_demo_id fresh)) = Some (Events [])
   \<and> files (fst (add_demonstration toy fresh fs_dir (Events []) (Raw 2)))
        (path_file (dataset_path fresh) (record_demo_id fresh)) = Some (Raw 2)
   \<and> set_goal toy fresh fs_dir (Events []) None = (fs_dir, Inl (LearnerError ()))
   \<and> fst (projr (snd (set_goal toy fresh fs_dir (Raw 3) None))) = False
   \<and> files (fst (set_goal toy fresh fs_dir (Raw 3) None))
        (cart_goal_file (dataset_path fresh) (record_goal_id fresh)) = Some (Raw 3)"
proof -
  have a: "lrn_add_demonstration toy (learner fresh) (Events []) (Raw 2) None = Inl ()"
    by (simp add: toy_defs)
  have b: "lrn_set_goal toy (learner fresh) (Events []) None None = Inl ()"
    by (simp add: toy_defs)
  have c: "lrn_set_goal toy (learner fresh) (Raw 3) None None = Inr (False, 0)"
    by (simp add: toy_defs fresh_def)
  show ?thesis
    using rejection_persistence[of toy fresh "Events []" "Raw 2" "()" fs_dir "Events []" None False 0]
      rejection_persistence[of toy fresh "Events []" "Raw 2" "()" fs_dir "Raw 3" None False 0]
      a b c
    by simp
qed

theorem auto_id_exhausted_witness:
  "generate_next_dataset fs_full ''ds'' (- 1) = (- 1, None)
   \<and> resolve_dataset fs_full ''ds'' (- 1) = (- 1, None)"
proof -
  have full: "\<forall>i \<in> {0..<100}. exists_path fs_full (get_dataset_path ''ds'' (int i))"
    by (simp add: fs_full_def exists_path_def)
  have neg: "(- 1 :: int) < 0" by simp
  show ?thesis using auto_id_exhausted[OF neg full] .
qed

theorem auto_ids_distinct_witness:
  "rid fresh \<noteq> rid fresh_1 \<and> dataset_path fresh \<noteq> dataset_path fresh_1
   \<and> exists_path fs_dir (dataset_path fresh)"
proof -
  have neg: "(- 1 :: int) < 0" by simp
  show ?thesis using auto_ids_distinct[OF neg neg init_run init_second_run] .
qed

theorem explicit_id_path_witness:
  "resolve_dataset fs_closed ''ds'' 0 = (0, Some (get_dataset_path ''ds'' 0))
   \<and> resolve_dataset empty_fs ''ds'' 0 = resolve_dataset fs_closed ''ds'' 0
   \<and> rid fresh = 0 \<and> dataset_path fresh = get_dataset_path ''ds'' 0
   \<and> exists_path fs_dir (dataset_path fresh)"
proof -
  have nn: "(0 :: int) \<le> 0" by simp
  note t = explicit_id_path[OF nn, where s = fs_closed and path_ds = "''ds''" and s' = empty_fs
      and ops = toy and cfg = "()" and path_plots = "''plots''" and ?s1.0 = fs_dir and ?r1.0 = fresh
      and ?s2.0 = fs_dir and ?r2.0 = fresh]
  note u = explicit_id_path[OF nn, where s = empty_fs and path_ds = "''ds''" and s' = empty_fs
      and ops = toy and cfg = "()" and path_plots = "''plots''" and ?s1.0 = fs_dir and ?r1.0 = fresh
      and ?s2.0 = fs_dir and ?r2.0 = fresh]
  from t have 1: "resolve_dataset fs_closed ''ds'' 0 = (0, Some (get_dataset_path ''ds'' 0))"
    and 2: "resolve_dataset empty_fs ''ds'' 0 = resolve_dataset fs_closed ''ds'' 0"
    by blast+
  from u init_explicit_run init_reopen_run
  have 3: "rid fresh = 0 \<and> dataset_path fresh = get_dataset_path ''ds'' 0
           \<and> exists_path fs_dir (dataset_path fresh)"
    by blast
  from 1 2 3 show ?thesis by blast
qed

theorem close_keeps_sequence_witness:
  "sequence (snd (close toy recorded fs_recorded)) = sequence recorded
   \<and> sequence rerecorded = sequence recorded @ [Demo 0]
   \<and> files fs_rerecorded (demo_file (dataset_path recorded) 0) = Some (Raw 4)
   \<and> files fs_rerecorded (path_file (dataset_path recorded) 0) = Some (Raw 5)
   \<and> files (fst (set_goal toy closed fs_closed (Raw 6) (Some (Raw 7))))
       (cart_goal_file (dataset_path recorded) 0) = Some (Raw 6)
   \<and> files (fst (set_goal toy closed fs_closed (Raw 6) (Some (Raw 7))))
       (joint_goal_file (dataset_path recorded) 0) = Some (Raw 7)"
proof -
  have c: "snd (close toy recorded fs_recorded) = closed" "fst (close toy recorded fs_recorded) = fs_closed"
    by (simp_all add: close_run)
  have a: "add_demonstration toy (snd (close toy recorded fs_recorded))
             (fst (close toy recorded fs_recorded)) (Raw 4) (Raw 5)
           = (fs_rerecorded, Inr (0, rerecorded))"
    unfolding c using rerecord_run by (simp split: prod.splits sum.splits)
  have g: "snd (set_goal toy closed fs_closed (Raw 6) (Some (Raw 7)))
             = Inr (False, snd (projr (snd (set_goal toy closed fs_closed (Raw 6) (Some (Raw 7))))))"
    by (simp add: set_goal_def toy_defs closed_def Let_def)
  have b: "set_goal toy (snd (close toy recorded fs_recorded))
             (fst (close toy recorded fs_recorded)) (Raw 6) (Some (Raw 7))
           = (fst (set_goal toy closed fs_closed (Raw 6) (Some (Raw 7))),
              Inr (False, snd (projr (snd (set_goal toy closed fs_closed (Raw 6) (Some (Raw 7)))))))"
    unfolding c using g by (metis prod.collapse)
  note t = close_keeps_sequence[where ops = toy and r = recorded and s = fs_recorded
      and d = "Raw 4" and e = "Raw 5" and s' = fs_rerecorded and t = 0 and r' = rerecorded
      and x = "Raw 6" and j = "Some (Raw 7)"
      and s'' = "fst (set_goal toy closed fs_closed (Raw 6) (Some (Raw 7)))"
      and ret = False
      and r'' = "snd (projr (snd (set_goal toy closed fs_closed (Raw 6) (Some (Raw 7)))))"]
  from t a b show ?thesis by blast
qed

subsection \<open>Replays that fail, and the replay of a longer session\<close>








text \<open>
  Claim C2 says that the learner is never given an out-of-range forced index. The code
  guards the index from above only: with one primitive, \<open>receiving_promp = -2\<close> is
  forwarded as it is, and the toy learner, which refuses exactly the targets that are
  neither the sentinel nor the index of a primitive, refuses the call.
\<close>

theorem play_next_demo_target_counterexample:
  "lrn_num_primitives toy (learner recorded) = 1
   \<and> promp_target (lrn_num_primitives toy (learner recorded)) (- 2) = - 2
   \<and> play_next_demo toy (recorded\<lparr>record_demo_id := 0\<rparr>) fs_recorded (- 2)
       = Inl (LearnerError ())"
  by (simp add: play_next_demo_def promp_target_def read_json_def recorded_def fs_recorded_def
      names_eval toy_defs)

text \<open>
  Claim C4 says that after every \<^verbatim>\<open>close\<close> the manifest remains replayable. After
  the \<^verbatim>\<open>close\<close> of a second pass it is not: the manifest lists the demonstration of
  the first pass too, and \<^verbatim>\<open>play\<close> stops with the missing file \<open>demo_1.json\<close>.
\<close>

theorem close_effect_counterexample:
  "close toy recorded fs_recorded = (fs_closed, closed)
   \<and> record_calls toy closed fs_closed [AddDemonstration (Raw 4) (Raw 5)]
       = (fs_rerecorded, Inr ([Added 0], rerecorded))
   \<and> close toy rerecorded fs_rerecorded = (fs_second, closed_second)
   \<and> play toy closed_second fs_second True True = Inl (IOError ''ds/dataset_0/demo_1.json'')"
proof -
  have "play toy closed_second fs_second True True = Inl (IOError ''ds/dataset_0/demo_1.json'')"
    by (simp add: play_def closed_second_def fs_second_def read_json_def Let_def
        names_eval play_next_demo_def play_next_goal_def isfile_def promp_target_def toy_defs)
  with close_run rerecord_run close_second_run show ?thesis by (intro conjI)
qed

theorem close_effect_witness:
  "files (fst (close toy recorded fs_recorded)) (demo_file (dataset_path recorded) 0) = Some (Raw 1)
   \<and> files (fst (close toy recorded fs_recorded)) (sequence_file (dataset_path recorded))
       = Some (Events [Demo 0, Goal 0 0])
   \<and> learner (snd (close toy recorded fs_recorded)) = 0
   \<and> play toy (snd (close toy recorded fs_recorded)) (fst (close toy recorded fs_recorded))
        True True \<noteq> Inl (IOError ''ds/dataset_0/demo_0.json'')"
proof -
  have n: "demo_file (dataset_path recorded) 0 \<noteq> sequence_file (dataset_path recorded)"
    by (rule file_kinds_distinct)
  have f: "files fs_recorded (demo_file (dataset_path recorded) 0) = Some (Raw 1)"
    by (simp add: fs_recorded_def recorded_def names_eval)
  have z: "record_demo_id fresh = 0 \<and> record_goal_id fresh = 0 \<and> sequence fresh = []
           \<and> record_calls toy fresh fs_dir session
               = (fs_recorded, Inr ([Added 0, Reached True], recorded))"
    using session_run by (simp add: fresh_def)
  note t = close_effect[where ops = toy and r = recorded and s = fs_recorded
      and keep_targets = True and refining = True and ?r0.0 = fresh and ?s0.0 = fs_dir
      and cs = session and rets = "[Added 0, Reached True]"]
  from t z have "\<forall>err. play toy (snd (close toy recorded fs_recorded))
                         (fst (close toy recorded fs_recorded)) True True = Inl err
                       \<longrightarrow> (\<exists>x. err = LearnerError x)"
    by blast
  then have "play toy (snd (close toy recorded fs_recorded))
               (fst (close toy recorded fs_recorded)) True True
             \<noteq> Inl (IOError ''ds/dataset_0/demo_0.json'')"
    by auto
  moreover from t n f
  have "files (fst (close toy recorded fs_recorded)) (demo_file (dataset_path recorded) 0) = Some (Raw 1)
   \<and> files (fst (close toy recorded fs_recorded)) (sequence_file (dataset_path recorded))
       = Some (Events [Demo 0, Goal 0 0])
   \<and> learner (snd (close toy recorded fs_recorded)) = 0"
    by (simp add: recorded_def toy_defs)
  ultimately show ?thesis by blast
qed

end
